theory Spec2Isabelle
  imports Main "HOL-Library.AList"
begin

section \<open>JavaScript values as the client sees them\<close>

text \<open>
  The Optimizely client (\<^verbatim>\<open>lib/OptimizelyClient.js\<close>) receives loosely typed
  arguments: every method takes \<^verbatim>\<open>options\<close>, which may be missing, a bare string or
  number, or an object. The values are modelled as a datatype. Numbers are the
  integers that a double holds exactly (magnitude below \<open>2 ^ 53\<close>), a string is a list of characters with code points below 256, an
  object is the list of its own properties in enumeration order (keys distinct, none of
  them an array index), an array is the list of its elements.
\<close>

datatype jsval =
    JUndefined
  | JNull
  | JBool bool
  | JNum int
  | JStr string
  | JObj "(string \<times> jsval) list"
  | JArr "jsval list"

text \<open>What the code can throw, or reject a promise with.\<close>

datatype exn =
    Error string
  | TypeError
  | SyntaxError
  | URIError
  | CancellationError
  | TimeoutError

text \<open>\<^verbatim>\<open>typeof v\<close>.\<close>

fun typeof :: "jsval \<Rightarrow> string" where
  "typeof JUndefined = ''undefined''"
| "typeof JNull = ''object''"
| "typeof (JBool _) = ''boolean''"
| "typeof (JNum _) = ''number''"
| "typeof (JStr _) = ''string''"
| "typeof (JObj _) = ''object''"
| "typeof (JArr _) = ''object''"

text \<open>Truthiness, as \<^verbatim>\<open>!v\<close>, \<^verbatim>\<open>a || b\<close> and \<^verbatim>\<open>c ? x : y\<close> test it.\<close>

fun truthy :: "jsval \<Rightarrow> bool" where
  "truthy JUndefined = False"
| "truthy JNull = False"
| "truthy (JBool b) = b"
| "truthy (JNum n) = (n \<noteq> 0)"
| "truthy (JStr s) = (s \<noteq> [])"
| "truthy (JObj _) = True"
| "truthy (JArr _) = True"

definition js_or :: "jsval \<Rightarrow> jsval \<Rightarrow> jsval" where
  "js_or a b = (if truthy a then a else b)"

text \<open>\<^verbatim>\<open>undefined\<close> and \<^verbatim>\<open>null\<close>: reading a property of either throws a TypeError.\<close>

fun nullish :: "jsval \<Rightarrow> bool" where
  "nullish JUndefined = True"
| "nullish JNull = True"
| "nullish _ = False"

text \<open>
  \<^verbatim>\<open>v[k]\<close> for a receiver that is not nullish and a key \<open>k\<close> that is a field name.
  Primitives and arrays carry none of the field names the client reads.
  Where the source can read a property of a nullish receiver, the operation tests
  \<open>nullish\<close> first and throws.
\<close>

fun get_prop :: "jsval \<Rightarrow> string \<Rightarrow> jsval" where
  "get_prop (JObj ps) k = (case map_of ps k of Some v \<Rightarrow> v | None \<Rightarrow> JUndefined)"
| "get_prop _ k = JUndefined"

text \<open>
  \<^verbatim>\<open>o[k] = v\<close>: an existing property keeps its place, a new one goes last. The file is
  not in strict mode, so an assignment to a property of a primitive is silently dropped.
  Arrays do not record named properties in this model (JSON serialisation ignores them).
\<close>

fun set_prop :: "jsval \<Rightarrow> string \<Rightarrow> jsval \<Rightarrow> jsval" where
  "set_prop (JObj ps) k v = JObj (AList.update k v ps)"
| "set_prop x k v = x"

text \<open>\<^verbatim>\<open>delete o[k]\<close>.\<close>

fun delete_prop :: "jsval \<Rightarrow> string \<Rightarrow> jsval" where
  "delete_prop (JObj ps) k = JObj (AList.delete k ps)"
| "delete_prop x k = x"

text \<open>\<^verbatim>\<open>k in o\<close> restricted to own properties of objects.\<close>

fun has_prop :: "jsval \<Rightarrow> string \<Rightarrow> bool" where
  "has_prop (JObj ps) k = (k \<in> fst ` set ps)"
| "has_prop _ k = False"

subsection \<open>Conversion to string\<close>

fun string_of_nat :: "nat \<Rightarrow> string" where
  "string_of_nat n =
     (if n < 10 then [''0123456789'' ! n]
      else string_of_nat (n div 10) @ [''0123456789'' ! (n mod 10)])"

declare string_of_nat.simps [simp del]

definition string_of_int :: "int \<Rightarrow> string" where
  "string_of_int i = (if i < 0 then CHR ''-'' # string_of_nat (nat (- i)) else string_of_nat (nat i))"

fun join :: "string \<Rightarrow> string list \<Rightarrow> string" where
  "join sep [] = []"
| "join sep [x] = x"
| "join sep (x # y # ys) = x @ sep @ join sep (y # ys)"

text \<open>
  \<^verbatim>\<open>String(v)\<close>, which is also what \<^verbatim>\<open>'text' + v\<close> appends. A number is printed in
  plain decimal, as JavaScript does for the integers of the model (it changes to exponent
  notation only from \<open>10 ^ 21\<close> on, outside the range modelled). An array is the
  comma-joined conversion of its elements, \<^verbatim>\<open>undefined\<close> and \<^verbatim>\<open>null\<close> elements giving
  the empty string.
\<close>

fun js_String :: "jsval \<Rightarrow> string" where
  "js_String JUndefined = ''undefined''"
| "js_String JNull = ''null''"
| "js_String (JBool b) = (if b then ''true'' else ''false'')"
| "js_String (JNum n) = string_of_int n"
| "js_String (JStr s) = s"
| "js_String (JObj _) = ''[object Object]''"
| "js_String (JArr xs) = join '','' (map (\<lambda>x. if nullish x then [] else js_String x) xs)"

subsection \<open>Percent-encoding\<close>

definition hex2 :: "nat \<Rightarrow> string" where
  "hex2 n = [''0123456789ABCDEF'' ! (n div 16 mod 16), ''0123456789ABCDEF'' ! (n mod 16)]"

definition unreserved :: "char \<Rightarrow> bool" where
  "unreserved c \<longleftrightarrow>
     c \<in> set ''ABCDEFGHIJKLMNOPQRSTUVWXYZabcdefghijklmnopqrstuvwxyz0123456789-_.!~*'()''"

text \<open>
  The encoding of one character of \<^verbatim>\<open>encodeURIComponent\<close>: the unreserved characters
  stay, every other one becomes the percent-escapes of its UTF-8 bytes (one byte below
  128, two bytes from 128 to 255).
\<close>

definition encode_char :: "char \<Rightarrow> string" where
  "encode_char c =
     (let n = (of_char c :: nat) in
      if unreserved c then [c]
      else if n < 128 then CHR ''%'' # hex2 n
      else CHR ''%'' # hex2 (192 + n div 64) @ CHR ''%'' # hex2 (128 + n mod 64))"

definition encodeURIComponent :: "jsval \<Rightarrow> string" where
  "encodeURIComponent v = concat (map encode_char (js_String v))"

section \<open>The HTTP library and the request adapter\<close>

text \<open>
  A call of \<^verbatim>\<open>rest.get\<close>, \<^verbatim>\<open>rest.post\<close>, \<^verbatim>\<open>rest.put\<close> or \<^verbatim>\<open>rest.del\<close>: the function
  called, the URL, and the \<^verbatim>\<open>method\<close> (here \<open>http_method\<close>), \<^verbatim>\<open>headers\<close> and \<^verbatim>\<open>data\<close> of its options.
  \<open>data\<close> holds the value handed to \<^verbatim>\<open>JSON.stringify\<close>, whose text is the body.
\<close>

datatype verb = GET | POST | PUT | DEL

record request =
  verb :: verb
  url :: string
  http_method :: string
  headers :: "(string \<times> string) list"
  data :: "jsval option"

text \<open>
  The events an emitter of the HTTP library can fire. The adapter listens to five of
  them; any other event (\<^verbatim>\<open>complete\<close>, a status code) has no listener.
\<close>

datatype event =
    Success jsval
  | Fail jsval
  | ErrorEvent exn
  | Abort
  | Timeout
  | Other string

datatype reason = Payload jsval | Raised exn

datatype promise = Pending | Fulfilled jsval | Rejected reason

text \<open>
  \<^verbatim>\<open>resolve\<close> and \<^verbatim>\<open>reject\<close> of a promise: they settle a pending promise and do
  nothing to a settled one.
\<close>

definition resolve :: "promise \<Rightarrow> jsval \<Rightarrow> promise" where
  "resolve p d = (case p of Pending \<Rightarrow> Fulfilled d | _ \<Rightarrow> p)"

definition reject :: "promise \<Rightarrow> reason \<Rightarrow> promise" where
  "reject p r = (case p of Pending \<Rightarrow> Rejected r | _ \<Rightarrow> p)"

text \<open>The five listeners of \<^verbatim>\<open>EventEmitterPromisifier\<close>, applied to one fired event.\<close>

fun on_event :: "promise \<Rightarrow> event \<Rightarrow> promise" where
  "on_event p (Success d) = resolve p d"
| "on_event p (Fail d) = reject p (Payload d)"
| "on_event p (ErrorEvent err) = reject p (Raised err)"
| "on_event p Abort = reject p (Raised CancellationError)"
| "on_event p Timeout = reject p (Raised TimeoutError)"
| "on_event p (Other _) = p"

text \<open>
  \<^verbatim>\<open>EventEmitterPromisifier(originalMethod)\<close>: the promisified function calls the
  original method once inside the promise's executor. If the method throws, the promise
  is rejected with what it threw; otherwise the listeners see the events of the emitter
  in the order they fire. The result is the state the promise ends in.
\<close>

definition EventEmitterPromisifier :: "('a \<Rightarrow> exn + event list) \<Rightarrow> 'a \<Rightarrow> promise" where
  "EventEmitterPromisifier originalMethod args =
     (case originalMethod args of
        Inl e \<Rightarrow> Rejected (Raised e)
      | Inr events \<Rightarrow> foldl on_event Pending events)"

text \<open>The number of times the promise changes state while the events are delivered.\<close>

fun settlements :: "promise \<Rightarrow> event list \<Rightarrow> nat" where
  "settlements p [] = 0"
| "settlements p (e # es) =
     (if on_event p e = p then 0 else 1) + settlements (on_event p e) es"

text \<open>
  The world outside the client: how the HTTP library answers a request, given the
  requests made before it (it throws, or returns an emitter that fires events), the
  runtime's \<^verbatim>\<open>JSON.parse\<close>, and the log of the requests made so far.
\<close>

record world =
  remote :: "request list \<Rightarrow> request \<Rightarrow> exn + event list"
  JSON_parse :: "string \<Rightarrow> exn + jsval"
  calls :: "request list"

text \<open>
  What a method call leaves behind: \<open>opts\<close> is the object its variable \<^verbatim>\<open>options\<close>
  refers to on exit (the caller's own object whenever the caller passed one), \<open>ret\<close> is
  the error thrown synchronously or the promise returned, \<open>net\<close> is the world after it.
\<close>

record result =
  opts :: jsval
  ret :: "exn + promise"
  net :: world

definition throw :: "jsval \<Rightarrow> exn \<Rightarrow> world \<Rightarrow> result" where
  "throw options e w = \<lparr>opts = options, ret = Inl e, net = w\<rparr>"

text \<open>
  \<^verbatim>\<open>rest.getAsync\<close>, \<^verbatim>\<open>rest.postAsync\<close>, \<^verbatim>\<open>rest.putAsync\<close> and \<^verbatim>\<open>rest.delAsync\<close>, made by
  \<^verbatim>\<open>Promise.promisifyAll\<close> from the methods of the HTTP library: one request goes out
  and the promise of the adapter comes back.
\<close>

definition restAsync :: "verb \<Rightarrow> string \<Rightarrow> string \<Rightarrow> (string \<times> string) list \<Rightarrow> jsval option
    \<Rightarrow> jsval \<Rightarrow> world \<Rightarrow> result" where
  "restAsync v theUrl m hs body options w =
     (let req = \<lparr>verb = v, url = theUrl, http_method = m, headers = hs, data = body\<rparr> in
      \<lparr>opts = options,
       ret = Inr (EventEmitterPromisifier (remote w (calls w)) req),
       net = w\<lparr>calls := calls w @ [req]\<rparr>\<rparr>)"

section \<open>The client\<close>

record client =
  apiToken :: string
  baseUrl :: string
  baseHeaders :: "(string \<times> string) list"

text \<open>
  The constructor. \<open>baseUrl\<close> is kept as the text that \<^verbatim>\<open>this.baseUrl + '...'\<close>
  prepends to every path.
\<close>

definition OptimizelyClient :: "jsval \<Rightarrow> jsval \<Rightarrow> exn + client" where
  "OptimizelyClient token options =
     (if \<not> truthy token then Inl (Error ''Required: apiToken'')
      else Inr \<lparr>apiToken = js_String token,
                baseUrl = (if truthy options \<and> truthy (get_prop options ''url'')
                           then js_String (get_prop options ''url'')
                           else ''https://www.optimizelyapis.com/experiment/v1/''),
                baseHeaders = (if truthy options \<and> truthy (get_prop options ''OAuth2'')
                               then [(''Authorization'', ''Bearer '' @ js_String token),
                                     (''Content-Type'', ''application/json'')]
                               else [(''Token'', js_String token),
                                     (''Content-Type'', ''application/json'')])\<rparr>)"

text \<open>
  The prologue of the methods that take a bare identifier: a string or a number is
  wrapped into an object under the field the method reads.
\<close>

definition wrap_string_or_number :: "string \<Rightarrow> jsval \<Rightarrow> jsval" where
  "wrap_string_or_number field options =
     (if typeof options = ''string'' \<or> typeof options = ''number''
      then JObj [(field, options)] else options)"

definition wrap_string :: "string \<Rightarrow> jsval \<Rightarrow> jsval" where
  "wrap_string field options =
     (if typeof options = ''string'' then JObj [(field, options)] else options)"

text \<open>
  Two statements the methods are made of: \<^verbatim>\<open>options.k = options.k || d\<close> and
  \<^verbatim>\<open>options.k = String(options.k || "")\<close>.
\<close>

definition assign_or :: "jsval \<Rightarrow> string \<Rightarrow> jsval \<Rightarrow> jsval" where
  "assign_or options k d = set_prop options k (js_or (get_prop options k) d)"

definition assign_String_or :: "jsval \<Rightarrow> string \<Rightarrow> jsval" where
  "assign_String_or options k =
     set_prop options k (JStr (js_String (js_or (get_prop options k) (JStr []))))"

subsection \<open>Projects\<close>

definition createProject :: "client \<Rightarrow> jsval \<Rightarrow> world \<Rightarrow> result" where
  "createProject this options0 w =
     (let options = js_or options0 (JObj []);
          options = assign_or options ''project_name'' (JStr []);
          options = assign_or options ''project_status'' (JStr ''Active'');
          options = set_prop options ''include_jquery''
                      (JBool (truthy (get_prop options ''include_jquery'')));
          options = assign_or options ''ip_filter'' (JStr []);
          postUrl = baseUrl this @ ''projects/''
      in restAsync POST postUrl ''post'' (baseHeaders this) (Some options) options w)"

definition getProject :: "client \<Rightarrow> jsval \<Rightarrow> world \<Rightarrow> result" where
  "getProject this options0 w =
     (let options = wrap_string_or_number ''id'' options0;
          options = js_or options (JObj []);
          options = assign_String_or options ''id''
      in if \<not> truthy (get_prop options ''id'')
         then throw options (Error ''required: options.id'') w
         else let theUrl = baseUrl this @ ''projects/'' @ js_String (get_prop options ''id'')
              in restAsync GET theUrl ''get'' (baseHeaders this) None options w)"

definition updateProject :: "client \<Rightarrow> jsval \<Rightarrow> world \<Rightarrow> result" where
  "updateProject this options0 w =
     (let options = js_or options0 (JObj []);
          options = assign_or options ''id'' (JBool False)
      in if \<not> truthy (get_prop options ''id'')
         then throw options (Error ''required: options.id'') w
         else let putUrl = baseUrl this @ ''projects/'' @ js_String (get_prop options ''id'')
              in restAsync PUT putUrl ''put'' (baseHeaders this) (Some options) options w)"

definition getProjects :: "client \<Rightarrow> world \<Rightarrow> result" where
  "getProjects this w =
     (let theUrl = baseUrl this @ ''projects/''
      in restAsync GET theUrl ''get'' (baseHeaders this) None JUndefined w)"

subsection \<open>Experiments\<close>

definition createExperiment :: "client \<Rightarrow> jsval \<Rightarrow> world \<Rightarrow> result" where
  "createExperiment this options0 w =
     (let options = js_or options0 (JObj []);
          options = assign_or options ''description'' (JStr []);
          options = assign_or options ''project_id'' (JStr []);
          options = assign_or options ''edit_url'' (JStr []);
          options = assign_or options ''custom_css'' (JStr []);
          options = assign_or options ''custom_js'' (JStr [])
      in if \<not> truthy (get_prop options ''edit_url'')
         then throw options (Error ''Required: options.edit_url'') w
         else if \<not> truthy (get_prop options ''project_id'')
         then throw options (Error ''Required: options.project_id'') w
         else let postUrl = baseUrl this @ ''projects/''
                              @ js_String (get_prop options ''project_id'') @ ''/experiments/'';
                  options = delete_prop options ''project_id''
              in restAsync POST postUrl ''post'' (baseHeaders this) (Some options) options w)"

definition getExperiment :: "client \<Rightarrow> jsval \<Rightarrow> world \<Rightarrow> result" where
  "getExperiment this options0 w =
     (let options = wrap_string_or_number ''id'' options0;
          options = js_or options (JObj []);
          options = assign_String_or options ''id''
      in if \<not> truthy (get_prop options ''id'')
         then throw options (Error ''required: options.id'') w
         else let theUrl = baseUrl this @ ''experiments/'' @ js_String (get_prop options ''id'')
              in restAsync GET theUrl ''get'' (baseHeaders this) None options w)"

definition updateExperiment :: "client \<Rightarrow> jsval \<Rightarrow> world \<Rightarrow> result" where
  "updateExperiment this options0 w =
     (let options = js_or options0 (JObj []);
          options = assign_String_or options ''id'';
          options = assign_or options ''description'' (JStr []);
          options = assign_or options ''edit_url'' (JStr []);
          options = assign_or options ''custom_css'' (JStr []);
          options = assign_or options ''custom_js'' (JStr [])
      in if \<not> truthy (get_prop options ''id'')
         then throw options (Error ''required: options.id'') w
         else let theUrl = baseUrl this @ ''experiments/'' @ js_String (get_prop options ''id'');
                  options = delete_prop options ''id''
              in restAsync PUT theUrl ''put'' (baseHeaders this) (Some options) options w)"

definition pushExperiment :: "client \<Rightarrow> jsval \<Rightarrow> world \<Rightarrow> result" where
  "pushExperiment this options0 w =
     (let options = js_or options0 (JObj []);
          options = assign_or options ''id'' (JStr [])
      in if truthy (get_prop options ''id'')
         then updateExperiment this options w
         else createExperiment this options w)"

definition getExperiments :: "client \<Rightarrow> jsval \<Rightarrow> world \<Rightarrow> result" where
  "getExperiments this options0 w =
     (let options = wrap_string_or_number ''project_id'' options0;
          options = js_or options (JObj []);
          options = assign_String_or options ''project_id''
      in if \<not> truthy (get_prop options ''project_id'')
         then throw options (Error ''required: options.project_id'') w
         else let theUrl = baseUrl this @ ''projects/''
                             @ js_String (get_prop options ''project_id'') @ ''/experiments/''
              in restAsync GET theUrl ''get'' (baseHeaders this) None options w)"

definition deleteExperiment :: "client \<Rightarrow> jsval \<Rightarrow> world \<Rightarrow> result" where
  "deleteExperiment this options0 w =
     (let options = wrap_string_or_number ''id'' options0;
          options = js_or options (JObj []);
          options = assign_String_or options ''id''
      in if \<not> truthy (get_prop options ''id'')
         then throw options (Error ''required: options.id'') w
         else let theUrl = baseUrl this @ ''experiments/'' @ js_String (get_prop options ''id'')
              in restAsync DEL theUrl ''delete'' (baseHeaders this) None options w)"

text \<open>
  The query string of \<^verbatim>\<open>getResults\<close> and \<^verbatim>\<open>getStats\<close>, the same lines in both. It is
  built only when \<^verbatim>\<open>options.dimension\<close> is truthy, so \<open>dimension\<close> is never nullish here.
\<close>

definition dimension_query :: "jsval \<Rightarrow> exn + string" where
  "dimension_query dimension =
     (let urlParameters = ''?'' in
      if \<not> truthy (get_prop dimension ''id'')
      then Inl (Error ''required: options.dimension.id'')
      else if \<not> truthy (get_prop dimension ''value'')
      then Inl (Error ''required: options.dimension.value'')
      else let urlParameters = urlParameters @ ''dimension_id=''
                                 @ encodeURIComponent (get_prop dimension ''id'');
               urlParameters = urlParameters @ ''&dimension_value=''
                                 @ encodeURIComponent (get_prop dimension ''value'')
           in Inr urlParameters)"

definition getResults :: "client \<Rightarrow> jsval \<Rightarrow> world \<Rightarrow> result" where
  "getResults this options0 w =
     (let options = wrap_string_or_number ''id'' options0;
          options = js_or options (JObj []);
          options = assign_String_or options ''id''
      in if \<not> truthy (get_prop options ''id'')
         then throw options (Error ''required: options.id'') w
         else let theUrl = baseUrl this @ ''experiments/''
                             @ js_String (get_prop options ''id'') @ ''/results''
              in if truthy (get_prop options ''dimension'')
                 then (case dimension_query (get_prop options ''dimension'') of
                         Inl e \<Rightarrow> throw options e w
                       | Inr urlParameters \<Rightarrow>
                           restAsync GET (theUrl @ urlParameters) ''GET'' (baseHeaders this)
                             None options w)
                 else restAsync GET theUrl ''GET'' (baseHeaders this) None options w)"

definition getStats :: "client \<Rightarrow> jsval \<Rightarrow> world \<Rightarrow> result" where
  "getStats this options0 w =
     (let options = wrap_string_or_number ''id'' options0;
          options = js_or options (JObj []);
          options = assign_String_or options ''id''
      in if \<not> truthy (get_prop options ''id'')
         then throw options (Error ''required: options.id'') w
         else let theUrl = baseUrl this @ ''experiments/''
                             @ js_String (get_prop options ''id'') @ ''/stats''
              in if truthy (get_prop options ''dimension'')
                 then (case dimension_query (get_prop options ''dimension'') of
                         Inl e \<Rightarrow> throw options e w
                       | Inr urlParameters \<Rightarrow>
                           restAsync GET (theUrl @ urlParameters) ''GET'' (baseHeaders this)
                             None options w)
                 else restAsync GET theUrl ''GET'' (baseHeaders this) None options w)"

text \<open>
  \<^verbatim>\<open>promise.then(f)\<close> with one callback: \<open>f\<close> runs on the value of a fulfilled promise,
  and what it throws rejects the new promise.
\<close>

definition then_promise :: "promise \<Rightarrow> (jsval \<Rightarrow> exn + jsval) \<Rightarrow> promise" where
  "then_promise p f =
     (case p of
        Pending \<Rightarrow> Pending
      | Rejected r \<Rightarrow> Rejected r
      | Fulfilled d \<Rightarrow> (case f d of Inl e \<Rightarrow> Rejected (Raised e) | Inr v \<Rightarrow> Fulfilled v))"

text \<open>
  \<^verbatim>\<open>a === b\<close>: primitives are compared by type and value. Objects and arrays are compared
  by identity, and an entry of a response is never the caller's own object.
\<close>

fun strict_eq :: "jsval \<Rightarrow> jsval \<Rightarrow> bool" where
  "strict_eq JUndefined b = (b = JUndefined)"
| "strict_eq JNull b = (b = JNull)"
| "strict_eq (JBool x) b = (b = JBool x)"
| "strict_eq (JNum n) b = (b = JNum n)"
| "strict_eq (JStr s) b = (b = JStr s)"
| "strict_eq (JObj _) b = False"
| "strict_eq (JArr _) b = False"

text \<open>
  The values \<^verbatim>\<open>data[i]\<close> that \<^verbatim>\<open>for (var i in data)\<close> visits, in order: the elements of
  an array, the property values of an object, the characters of a string; nothing for
  any other value.
\<close>

fun for_in_values :: "jsval \<Rightarrow> jsval list" where
  "for_in_values (JArr xs) = xs"
| "for_in_values (JObj ps) = map (\<lambda>k. get_prop (JObj ps) k) (map fst ps)"
| "for_in_values (JStr s) = map (\<lambda>c. JStr [c]) s"
| "for_in_values _ = []"

text \<open>
  The loop of \<^verbatim>\<open>getExperimentByDescription\<close>: reading \<^verbatim>\<open>['description']\<close> of an entry
  that is \<^verbatim>\<open>null\<close> or \<^verbatim>\<open>undefined\<close> throws.
\<close>

fun find_description :: "jsval list \<Rightarrow> jsval \<Rightarrow> exn + jsval" where
  "find_description [] description = Inr JNull"
| "find_description (x # xs) description =
     (if nullish x then Inl TypeError
      else if strict_eq (get_prop x ''description'') description then Inr x
      else find_description xs description)"

fun parse_if_string :: "(string \<Rightarrow> exn + jsval) \<Rightarrow> jsval \<Rightarrow> exn + jsval" where
  "parse_if_string parse (JStr s) = parse s"
| "parse_if_string parse v = Inr v"

definition getExperimentByDescription :: "client \<Rightarrow> jsval \<Rightarrow> jsval \<Rightarrow> world \<Rightarrow> result" where
  "getExperimentByDescription this options0 arg1 w =
     (let options = wrap_string ''project_id'' options0;
          options = js_or options (JObj []);
          options = assign_String_or options ''project_id'';
          options = assign_or options ''description'' arg1
      in if \<not> truthy (get_prop options ''project_id'')
         then throw options (Error ''Required: options.project_id'') w
         else if \<not> truthy (get_prop options ''description'')
         then throw options (Error ''Required: options.description'') w
         else let listed = getExperiments this (get_prop options ''project_id'') w
              in (case ret listed of
                    Inl e \<Rightarrow> \<lparr>opts = options, ret = Inl e, net = net listed\<rparr>
                  | Inr p \<Rightarrow>
                      \<lparr>opts = options,
                       ret = Inr (then_promise p (\<lambda>data'.
                               case parse_if_string (JSON_parse w) data' of
                                 Inl e \<Rightarrow> Inl e
                               | Inr parsed \<Rightarrow>
                                   find_description (for_in_values parsed)
                                     (get_prop options ''description''))),
                       net = net listed\<rparr>))"

subsection \<open>Variations\<close>

definition createVariation :: "client \<Rightarrow> jsval \<Rightarrow> world \<Rightarrow> result" where
  "createVariation this options0 w =
     (let options = js_or options0 (JObj []);
          options = assign_String_or options ''experiment_id'';
          options = assign_or options ''description'' (JStr [])
      in if \<not> truthy (get_prop options ''experiment_id'')
         then throw options (Error ''Required: options.experiment_id'') w
         else let postUrl = baseUrl this @ ''experiments/''
                              @ js_String (get_prop options ''experiment_id'') @ ''/variations/'';
                  options = delete_prop options ''experiment_id''
              in restAsync POST postUrl ''post'' (baseHeaders this) (Some options) options w)"

definition getVariation :: "client \<Rightarrow> jsval \<Rightarrow> world \<Rightarrow> result" where
  "getVariation this options0 w =
     (let options = wrap_string ''id'' options0
      in if nullish options then throw options TypeError w
         else if \<not> truthy (get_prop options ''id'')
         then throw options (Error ''Required: options.id'') w
         else let theUrl = baseUrl this @ ''variations/'' @ js_String (get_prop options ''id'')
              in restAsync GET theUrl ''get'' (baseHeaders this) None options w)"

definition updateVariation :: "client \<Rightarrow> jsval \<Rightarrow> world \<Rightarrow> result" where
  "updateVariation this options0 w =
     (let optionsToUpdate = JObj [];
          options = js_or options0 (JObj [])
      in if \<not> truthy (get_prop options ''id'')
         then throw options (Error ''Required: options.id'') w
         else let optionsToUpdate = set_prop optionsToUpdate ''id''
                                      (js_or (get_prop options ''id'') (JStr []));
                  optionsToUpdate = set_prop optionsToUpdate ''description''
                                      (js_or (get_prop options ''description'') (JStr []));
                  optionsToUpdate = set_prop optionsToUpdate ''js_component''
                                      (js_or (get_prop options ''js_component'') (JStr []));
                  theUrl = baseUrl this @ ''variations/'' @ js_String (get_prop options ''id'')
              in restAsync PUT theUrl ''put'' (baseHeaders this) (Some optionsToUpdate) options w)"

definition pushVariation :: "client \<Rightarrow> jsval \<Rightarrow> world \<Rightarrow> result" where
  "pushVariation this options0 w =
     (let options = js_or options0 (JObj []);
          options = assign_or options ''id'' (JStr [])
      in if truthy (get_prop options ''id'')
         then updateVariation this options w
         else createVariation this options w)"

definition deleteVariation :: "client \<Rightarrow> jsval \<Rightarrow> world \<Rightarrow> result" where
  "deleteVariation this options0 w =
     (let options = wrap_string ''id'' options0
      in if nullish options then throw options TypeError w
         else if \<not> truthy (get_prop options ''id'')
         then throw options (Error ''Required: options.id'') w
         else let theUrl = baseUrl this @ ''variations/'' @ js_String (get_prop options ''id'')
              in restAsync DEL theUrl ''delete'' (baseHeaders this) None options w)"

subsection \<open>Audiences\<close>

definition getAudience :: "client \<Rightarrow> jsval \<Rightarrow> world \<Rightarrow> result" where
  "getAudience this options0 w =
     (let options = wrap_string ''id'' options0
      in if nullish options then throw options TypeError w
         else if \<not> truthy (get_prop options ''id'')
         then throw options (Error ''Required: options.id'') w
         else let theUrl = baseUrl this @ ''audiences/'' @ js_String (get_prop options ''id'')
              in restAsync GET theUrl ''get'' (baseHeaders this) None options w)"

definition createAudience :: "client \<Rightarrow> jsval \<Rightarrow> world \<Rightarrow> result" where
  "createAudience this options0 w =
     (let optionsToSend = JObj [];
          options = js_or options0 (JObj [])
      in if \<not> truthy (get_prop options ''name'')
         then throw options (Error ''Required: options.name'') w
         else if \<not> truthy (get_prop options ''id'')
         then throw options (Error ''Required: options.id'') w
         else let optionsToSend = set_prop optionsToSend ''name'' (get_prop options ''name'');
                  optionsToSend = set_prop optionsToSend ''id'' (get_prop options ''id'');
                  optionsToSend = set_prop optionsToSend ''description''
                                    (js_or (get_prop options ''description'') (JStr []));
                  optionsToSend = set_prop optionsToSend ''segmentation''
                                    (js_or (get_prop options ''segmentation'') (JBool False));
                  optionsToSend = set_prop optionsToSend ''conditions''
                                    (js_or (get_prop options ''conditions'') (JArr []));
                  postUrl = baseUrl this @ ''projects/'' @ js_String (get_prop options ''id'')
                              @ ''/audiences/''
              in restAsync POST postUrl ''post'' (baseHeaders this) (Some optionsToSend) options w)"

definition updateAudience :: "client \<Rightarrow> jsval \<Rightarrow> world \<Rightarrow> result" where
  "updateAudience this options0 w =
     (let options = js_or options0 (JObj []);
          options = assign_or options ''id'' (JBool False)
      in if \<not> truthy (get_prop options ''id'')
         then throw options (Error ''required: options.id'') w
         else let putUrl = baseUrl this @ ''audiences/'' @ js_String (get_prop options ''id'')
              in restAsync PUT putUrl ''put'' (baseHeaders this) (Some options) options w)"

definition getAudiences :: "client \<Rightarrow> jsval \<Rightarrow> world \<Rightarrow> result" where
  "getAudiences this options0 w =
     (let options = wrap_string_or_number ''id'' options0;
          options = js_or options (JObj []);
          options = assign_or options ''id'' (JStr [])
      in if \<not> truthy (get_prop options ''id'')
         then throw options (Error ''required: options.id'') w
         else let theUrl = baseUrl this @ ''projects/'' @ js_String (get_prop options ''id'')
                             @ ''/audiences/''
              in restAsync GET theUrl ''get'' (baseHeaders this) None options w)"

subsection \<open>Dimensions\<close>

definition getDimension :: "client \<Rightarrow> jsval \<Rightarrow> world \<Rightarrow> result" where
  "getDimension this options0 w =
     (let options = wrap_string ''id'' options0
      in if nullish options then throw options TypeError w
         else if \<not> truthy (get_prop options ''id'')
         then throw options (Error ''Required: options.id'') w
         else let theUrl = baseUrl this @ ''dimensions/'' @ js_String (get_prop options ''id'')
              in restAsync GET theUrl ''get'' (baseHeaders this) None options w)"

definition createDimension :: "client \<Rightarrow> jsval \<Rightarrow> world \<Rightarrow> result" where
  "createDimension this options0 w =
     (let optionsToSend = JObj [];
          options = js_or options0 (JObj [])
      in if \<not> truthy (get_prop options ''name'')
         then throw options (Error ''Required: options.name'') w
         else if \<not> truthy (get_prop options ''id'')
         then throw options (Error ''Required: options.id'') w
         else let optionsToSend = set_prop optionsToSend ''name'' (get_prop options ''name'');
                  optionsToSend = set_prop optionsToSend ''id'' (get_prop options ''id'');
                  optionsToSend = set_prop optionsToSend ''description''
                                    (js_or (get_prop options ''description'') (JStr []));
                  optionsToSend = set_prop optionsToSend ''client_api_name''
                                    (js_or (get_prop options ''client_api_name'') (JStr []));
                  postUrl = baseUrl this @ ''projects/'' @ js_String (get_prop options ''id'')
                              @ ''/dimensions/''
              in restAsync POST postUrl ''post'' (baseHeaders this) (Some optionsToSend) options w)"

definition updateDimension :: "client \<Rightarrow> jsval \<Rightarrow> world \<Rightarrow> result" where
  "updateDimension this options0 w =
     (let options = js_or options0 (JObj []);
          options = assign_or options ''id'' (JBool False)
      in if \<not> truthy (get_prop options ''id'')
         then throw options (Error ''required: options.id'') w
         else let putUrl = baseUrl this @ ''dimensions/'' @ js_String (get_prop options ''id'')
              in restAsync PUT putUrl ''put'' (baseHeaders this) (Some options) options w)"

definition getDimensions :: "client \<Rightarrow> jsval \<Rightarrow> world \<Rightarrow> result" where
  "getDimensions this options0 w =
     (let options = wrap_string_or_number ''id'' options0;
          options = js_or options (JObj []);
          options = assign_or options ''id'' (JStr [])
      in if \<not> truthy (get_prop options ''id'')
         then throw options (Error ''required: options.id'') w
         else let theUrl = baseUrl this @ ''projects/'' @ js_String (get_prop options ''id'')
                             @ ''/dimensions/''
              in restAsync GET theUrl ''get'' (baseHeaders this) None options w)"

subsection \<open>Goals\<close>

definition getGoals :: "client \<Rightarrow> jsval \<Rightarrow> world \<Rightarrow> result" where
  "getGoals this options0 w =
     (let options = wrap_string_or_number ''id'' options0;
          options = js_or options (JObj []);
          options = assign_or options ''id'' (JStr [])
      in if \<not> truthy (get_prop options ''id'')
         then throw options (Error ''required: options.id'') w
         else let theUrl = baseUrl this @ ''projects/'' @ js_String (get_prop options ''id'')
                             @ ''/goals/''
              in restAsync GET theUrl ''get'' (baseHeaders this) None options w)"

section \<open>Notions used in the statements\<close>

text \<open>A plain object, as opposed to a primitive, an array or a missing value.\<close>

fun is_obj :: "jsval \<Rightarrow> bool" where
  "is_obj (JObj _) = True"
| "is_obj _ = False"

text \<open>The events the adapter has a listener for.\<close>

fun listened :: "event \<Rightarrow> bool" where
  "listened (Other _) = False"
| "listened _ = True"

text \<open>The state in which one listened event leaves a pending promise.\<close>

fun settled_by :: "event \<Rightarrow> promise" where
  "settled_by (Success d) = Fulfilled d"
| "settled_by (Fail d) = Rejected (Payload d)"
| "settled_by (ErrorEvent err) = Rejected (Raised err)"
| "settled_by Abort = Rejected (Raised CancellationError)"
| "settled_by Timeout = Rejected (Raised TimeoutError)"
| "settled_by (Other _) = Pending"

text \<open>The request a method hands to the HTTP library.\<close>

definition req :: "verb \<Rightarrow> string \<Rightarrow> string \<Rightarrow> client \<Rightarrow> jsval option \<Rightarrow> request" where
  "req v u m this body = \<lparr>verb = v, url = u, http_method = m, headers = baseHeaders this, data = body\<rparr>"

text \<open>
  A call that throws synchronously and leaves the log of requests as it was, and a call
  that makes exactly one request and returns the adapter's promise for it.
\<close>

definition throws :: "result \<Rightarrow> exn \<Rightarrow> world \<Rightarrow> bool" where
  "throws r e w \<longleftrightarrow> ret r = Inl e \<and> net r = w"

definition sends :: "result \<Rightarrow> request \<Rightarrow> world \<Rightarrow> bool" where
  "sends r q w \<longleftrightarrow>
     ret r = Inr (EventEmitterPromisifier (remote w (calls w)) q) \<and>
     net r = w\<lparr>calls := calls w @ [q]\<rparr>"

text \<open>A client, and a world whose HTTP library answers every request with success.\<close>

definition example_client :: client where
  "example_client =
     \<lparr>apiToken = ''token'',
      baseUrl = ''https://www.optimizelyapis.com/experiment/v1/'',
      baseHeaders = [(''Token'', ''token''), (''Content-Type'', ''application/json'')]\<rparr>"

definition example_world :: world where
  "example_world =
     \<lparr>remote = (\<lambda>earlier q. Inr [Success (JStr ''{}''), Other ''complete'']),
      JSON_parse = (\<lambda>s. Inl SyntaxError),
      calls = []\<rparr>"

text \<open>
  A world whose HTTP library answers a listing with the status event, then success with a
  text body, then \<^verbatim>\<open>complete\<close>, and whose \<^verbatim>\<open>JSON.parse\<close> reads that text as four
  experiments.
\<close>

definition listing_world :: world where
  "listing_world =
     \<lparr>remote = (\<lambda>earlier q. Inr [Other ''200'', Success (JStr ''[A, B, B2, C]''), Other ''complete'']),
      JSON_parse = (\<lambda>s. if s = ''[A, B, B2, C]''
                          then Inr (JArr [JObj [(''id'', JNum 1), (''description'', JStr ''A'')],
                                          JObj [(''id'', JNum 2), (''description'', JStr ''B'')],
                                          JObj [(''id'', JNum 3), (''description'', JStr ''B'')],
                                          JObj [(''id'', JNum 4), (''description'', JStr ''C'')]])
                          else Inl SyntaxError),
      calls = []\<rparr>"

section \<open>Basic facts about values and calls\<close>

lemma truthy_js_or [simp]: "truthy (js_or a b) \<longleftrightarrow> truthy a \<or> truthy b"
  by (simp add: js_or_def)

lemma js_or_left: "truthy a \<Longrightarrow> js_or a b = a"
  by (simp add: js_or_def)

lemma js_or_right: "\<not> truthy a \<Longrightarrow> js_or a b = b"
  by (simp add: js_or_def)

lemma truthy_not_nullish: "truthy v \<Longrightarrow> \<not> nullish v"
  by (cases v) simp_all

lemma is_obj_truthy: "is_obj v \<Longrightarrow> truthy v"
  by (cases v) simp_all

lemma get_prop_not_obj: "\<not> is_obj v \<Longrightarrow> get_prop v k = JUndefined"
  by (cases v) simp_all

lemma get_prop_set_prop:
  "get_prop (set_prop v k x) k' = (if is_obj v \<and> k' = k then x else get_prop v k')"
  by (cases v) (simp_all add: update_conv')

lemma get_prop_delete_prop:
  "get_prop (delete_prop v k) k' = (if k' = k then JUndefined else get_prop v k')"
  by (cases v) (simp_all add: delete_conv')

lemma is_obj_set_prop [simp]: "is_obj (set_prop v k x) = is_obj v"
  by (cases v) simp_all

lemma is_obj_delete_prop [simp]: "is_obj (delete_prop v k) = is_obj v"
  by (cases v) simp_all

lemma truthy_set_prop [simp]: "truthy (set_prop v k x) = truthy v"
  by (cases v) simp_all

lemma is_obj_or_empty: "is_obj (js_or v (JObj [])) \<longleftrightarrow> is_obj v \<or> \<not> truthy v"
  by (cases v) (simp_all add: js_or_def)

lemma get_prop_or_empty: "get_prop (js_or v (JObj [])) k = get_prop v k"
  by (cases v) (simp_all add: js_or_def)

lemma has_prop_set_prop:
  "has_prop (set_prop v k x) k' \<longleftrightarrow> is_obj v \<and> (k' = k \<or> has_prop v k')"
  by (cases v) (auto simp add: dom_update)

lemma has_prop_delete_prop: "has_prop (delete_prop v k) k' \<longleftrightarrow> k' \<noteq> k \<and> has_prop v k'"
  by (cases v) (auto simp add: AList.delete_eq)

lemma get_prop_assign_or:
  "get_prop (assign_or v k d) k' =
     (if is_obj v \<and> k' = k then js_or (get_prop v k) d else get_prop v k')"
  by (simp add: assign_or_def get_prop_set_prop)

lemma get_prop_assign_String_or:
  "get_prop (assign_String_or v k) k' =
     (if is_obj v \<and> k' = k then JStr (js_String (js_or (get_prop v k) (JStr [])))
      else get_prop v k')"
  by (simp add: assign_String_or_def get_prop_set_prop)

lemma is_obj_assign_or [simp]: "is_obj (assign_or v k d) = is_obj v"
  by (simp add: assign_or_def)

lemma is_obj_assign_String_or [simp]: "is_obj (assign_String_or v k) = is_obj v"
  by (simp add: assign_String_or_def)

lemma has_prop_assign_or:
  "has_prop (assign_or v k d) k' \<longleftrightarrow> is_obj v \<and> (k' = k \<or> has_prop v k')"
  by (simp add: assign_or_def has_prop_set_prop)

lemma has_prop_assign_String_or:
  "has_prop (assign_String_or v k) k' \<longleftrightarrow> is_obj v \<and> (k' = k \<or> has_prop v k')"
  by (simp add: assign_String_or_def has_prop_set_prop)

lemma truthy_get_prop_is_obj: "truthy (get_prop v k) \<Longrightarrow> is_obj v"
  by (cases v) simp_all

lemma sends_restAsync_iff:
  "sends (restAsync v u m hs body options w) q w \<longleftrightarrow>
     q = \<lparr>verb = v, url = u, http_method = m, headers = hs, data = body\<rparr>"
proof -
  have "w\<lparr>calls := calls w @ [a]\<rparr> = w\<lparr>calls := calls w @ [b]\<rparr> \<longleftrightarrow> a = b" for a b :: request
    by (cases w) simp
  then show ?thesis
    by (auto simp add: sends_def restAsync_def Let_def)
qed

lemma throws_restAsync: "\<not> throws (restAsync v u m hs body options w) e w'"
  by (simp add: throws_def restAsync_def Let_def)

lemma sends_throw: "\<not> sends (throw options e w) q w'"
  by (simp add: sends_def throw_def)

lemma sends_restAsync:
  "sends (restAsync v u m (baseHeaders this) body options w) (req v u m this body) w"
  by (simp add: sends_def restAsync_def req_def Let_def)

lemma opts_restAsync [simp]: "opts (restAsync v u m hs body options w) = options"
  by (simp add: restAsync_def Let_def)

lemma throws_throw: "throws (throw options e w) e' w' \<longleftrightarrow> e = e' \<and> w = w'"
  by (auto simp add: throws_def throw_def)

lemma opts_throw [simp]: "opts (throw options e w) = options"
  by (simp add: throw_def)

section \<open>Creating a project\<close>

text \<open>
  Claim C6. \<^verbatim>\<open>createProject\<close> never requires \<^verbatim>\<open>project_name\<close>: whatever it is given, it
  throws nothing and posts one request to \<^verbatim>\<open>projects/\<close>. When the options are missing
  or an object, the body carries the defaults: \<^verbatim>\<open>project_name\<close> is the caller's value or
  the empty string, \<^verbatim>\<open>project_status\<close> the caller's value or \<^verbatim>\<open>"Active"\<close>,
  \<^verbatim>\<open>ip_filter\<close> the caller's value or the empty string, and \<^verbatim>\<open>include_jquery\<close> the
  boolean that the caller's value coerces to.
\<close>

theorem createProject_defaults:
  "\<exists>body. sends (createProject this options w)
            (req POST (baseUrl this @ ''projects/'') ''post'' this (Some body)) w \<and>
     (\<not> truthy options \<or> is_obj options \<longrightarrow>
        get_prop body ''project_name'' = js_or (get_prop options ''project_name'') (JStr []) \<and>
        get_prop body ''project_status'' =
          js_or (get_prop options ''project_status'') (JStr ''Active'') \<and>
        get_prop body ''include_jquery'' = JBool (truthy (get_prop options ''include_jquery'')) \<and>
        get_prop body ''ip_filter'' = js_or (get_prop options ''ip_filter'') (JStr []))"
  unfolding createProject_def Let_def
  apply (rule exI, rule conjI, rule sends_restAsync)
  apply (auto simp add: get_prop_set_prop get_prop_assign_or get_prop_or_empty is_obj_or_empty)
  done

theorem createProject_defaults_witness:
  "is_obj (JObj [(''project_name'', JStr ''sample''), (''include_jquery'', JNum 1)]) \<and>
   (\<exists>body. sends (createProject example_client
                    (JObj [(''project_name'', JStr ''sample''), (''include_jquery'', JNum 1)])
                    example_world)
             (req POST (baseUrl example_client @ ''projects/'') ''post'' example_client (Some body))
             example_world \<and>
      get_prop body ''project_name'' = JStr ''sample'' \<and>
      get_prop body ''project_status'' = JStr ''Active'' \<and>
      get_prop body ''include_jquery'' = JBool True \<and>
      get_prop body ''ip_filter'' = JStr [])"
  using createProject_defaults
    [of example_client "JObj [(''project_name'', JStr ''sample''), (''include_jquery'', JNum 1)]"
        example_world]
  by (simp add: js_or_def)

section \<open>Creating experiments, audiences and dimensions\<close>

lemma js_or_JObj [simp]: "js_or (JObj ps) b = JObj ps"
  by (simp add: js_or_def)

lemma createExperiment_outcome:
  "(\<not> truthy (get_prop options ''edit_url'') \<longrightarrow>
      throws (createExperiment this options w) (Error ''Required: options.edit_url'') w) \<and>
   (truthy (get_prop options ''edit_url'') \<and> \<not> truthy (get_prop options ''project_id'') \<longrightarrow>
      throws (createExperiment this options w) (Error ''Required: options.project_id'') w) \<and>
   (truthy (get_prop options ''edit_url'') \<and> truthy (get_prop options ''project_id'') \<longrightarrow>
      (\<exists>body. sends (createExperiment this options w)
                (req POST (baseUrl this @ ''projects/'' @ js_String (get_prop options ''project_id'')
                             @ ''/experiments/'') ''post'' this (Some body)) w \<and>
         get_prop body ''edit_url'' = get_prop options ''edit_url'' \<and>
         \<not> has_prop body ''project_id''))"
  unfolding createExperiment_def Let_def
  by (auto simp add: get_prop_assign_or get_prop_or_empty is_obj_or_empty throws_throw
      sends_restAsync_iff req_def get_prop_delete_prop has_prop_delete_prop js_or_left
      dest: truthy_get_prop_is_obj)

lemma createAudience_outcome:
  "(\<not> truthy (get_prop options ''name'') \<longrightarrow>
      throws (createAudience this options w) (Error ''Required: options.name'') w) \<and>
   (truthy (get_prop options ''name'') \<and> \<not> truthy (get_prop options ''id'') \<longrightarrow>
      throws (createAudience this options w) (Error ''Required: options.id'') w) \<and>
   (truthy (get_prop options ''name'') \<and> truthy (get_prop options ''id'') \<longrightarrow>
      (\<exists>body. sends (createAudience this options w)
                (req POST (baseUrl this @ ''projects/'' @ js_String (get_prop options ''id'')
                             @ ''/audiences/'') ''post'' this (Some body)) w \<and>
         get_prop body ''name'' = get_prop options ''name'' \<and>
         get_prop body ''id'' = get_prop options ''id''))"
  unfolding createAudience_def Let_def
  by (auto simp add: get_prop_set_prop get_prop_or_empty is_obj_or_empty throws_throw
      sends_restAsync_iff req_def
      dest: truthy_get_prop_is_obj)

lemma createDimension_outcome:
  "(\<not> truthy (get_prop options ''name'') \<longrightarrow>
      throws (createDimension this options w) (Error ''Required: options.name'') w) \<and>
   (truthy (get_prop options ''name'') \<and> \<not> truthy (get_prop options ''id'') \<longrightarrow>
      throws (createDimension this options w) (Error ''Required: options.id'') w) \<and>
   (truthy (get_prop options ''name'') \<and> truthy (get_prop options ''id'') \<longrightarrow>
      (\<exists>body. sends (createDimension this options w)
                (req POST (baseUrl this @ ''projects/'' @ js_String (get_prop options ''id'')
                             @ ''/dimensions/'') ''post'' this (Some body)) w \<and>
         get_prop body ''name'' = get_prop options ''name'' \<and>
         get_prop body ''id'' = get_prop options ''id''))"
  unfolding createDimension_def Let_def
  by (auto simp add: get_prop_set_prop get_prop_or_empty is_obj_or_empty throws_throw
      sends_restAsync_iff req_def
      dest: truthy_get_prop_is_obj)

text \<open>
  Claim C2, as amended. For every argument, \<^verbatim>\<open>createExperiment\<close> throws
  \<^verbatim>\<open>Error("Required: options.edit_url")\<close> when \<^verbatim>\<open>edit_url\<close> is missing or empty, and
  \<^verbatim>\<open>Error("Required: options.project_id")\<close> when \<^verbatim>\<open>project_id\<close> is; \<^verbatim>\<open>createAudience\<close>
  and \<^verbatim>\<open>createDimension\<close> throw for \<^verbatim>\<open>name\<close> and for \<^verbatim>\<open>id\<close>. Each throw leaves the
  log of requests unchanged. With the mandatory fields supplied, one POST goes out:
  the body of an audience or dimension carries \<^verbatim>\<open>name\<close> and \<^verbatim>\<open>id\<close> with the caller's
  values, and the body of an experiment carries the caller's \<^verbatim>\<open>edit_url\<close> but no
  \<^verbatim>\<open>project_id\<close>, which is deleted from the options and appears in the URL only.
\<close>

theorem create_operations_validate:
  "((\<not> truthy (get_prop options ''edit_url'') \<longrightarrow>
      throws (createExperiment this options w) (Error ''Required: options.edit_url'') w) \<and>
   (truthy (get_prop options ''edit_url'') \<and> \<not> truthy (get_prop options ''project_id'') \<longrightarrow>
      throws (createExperiment this options w) (Error ''Required: options.project_id'') w) \<and>
   (truthy (get_prop options ''edit_url'') \<and> truthy (get_prop options ''project_id'') \<longrightarrow>
      (\<exists>body. sends (createExperiment this options w)
                (req POST (baseUrl this @ ''projects/'' @ js_String (get_prop options ''project_id'')
                             @ ''/experiments/'') ''post'' this (Some body)) w \<and>
         get_prop body ''edit_url'' = get_prop options ''edit_url'' \<and>
         \<not> has_prop body ''project_id''))) \<and>
   ((\<not> truthy (get_prop options ''name'') \<longrightarrow>
      throws (createAudience this options w) (Error ''Required: options.name'') w) \<and>
   (truthy (get_prop options ''name'') \<and> \<not> truthy (get_prop options ''id'') \<longrightarrow>
      throws (createAudience this options w) (Error ''Required: options.id'') w) \<and>
   (truthy (get_prop options ''name'') \<and> truthy (get_prop options ''id'') \<longrightarrow>
      (\<exists>body. sends (createAudience this options w)
                (req POST (baseUrl this @ ''projects/'' @ js_String (get_prop options ''id'')
                             @ ''/audiences/'') ''post'' this (Some body)) w \<and>
         get_prop body ''name'' = get_prop options ''name'' \<and>
         get_prop body ''id'' = get_prop options ''id''))) \<and>
   ((\<not> truthy (get_prop options ''name'') \<longrightarrow>
      throws (createDimension this options w) (Error ''Required: options.name'') w) \<and>
   (truthy (get_prop options ''name'') \<and> \<not> truthy (get_prop options ''id'') \<longrightarrow>
      throws (createDimension this options w) (Error ''Required: options.id'') w) \<and>
   (truthy (get_prop options ''name'') \<and> truthy (get_prop options ''id'') \<longrightarrow>
      (\<exists>body. sends (createDimension this options w)
                (req POST (baseUrl this @ ''projects/'' @ js_String (get_prop options ''id'')
                             @ ''/dimensions/'') ''post'' this (Some body)) w \<and>
         get_prop body ''name'' = get_prop options ''name'' \<and>
         get_prop body ''id'' = get_prop options ''id'')))"
  using createExperiment_outcome [of options this w] createAudience_outcome [of options this w]
    createDimension_outcome [of options this w]
  by blast

theorem create_operations_validate_witness:
  "throws (createExperiment example_client (JObj [(''project_id'', JStr ''1'')]) example_world)
     (Error ''Required: options.edit_url'') example_world \<and>
   throws (createAudience example_client (JObj [(''project_id'', JStr ''1'')]) example_world)
     (Error ''Required: options.name'') example_world \<and>
   throws (createDimension example_client (JObj [(''project_id'', JStr ''1'')]) example_world)
     (Error ''Required: options.name'') example_world \<and>
   (\<exists>body. sends (createExperiment example_client
                    (JObj [(''edit_url'', JStr ''http://example.com/''), (''project_id'', JStr ''1'')])
                    example_world)
             (req POST ''https://www.optimizelyapis.com/experiment/v1/projects/1/experiments/''
                ''post'' example_client (Some body)) example_world \<and>
      get_prop body ''edit_url'' = JStr ''http://example.com/'' \<and>
      \<not> has_prop body ''project_id'') \<and>
   (\<exists>body. sends (createAudience example_client
                    (JObj [(''name'', JStr ''visitors''), (''id'', JNum 7)]) example_world)
             (req POST ''https://www.optimizelyapis.com/experiment/v1/projects/7/audiences/''
                ''post'' example_client (Some body)) example_world \<and>
      get_prop body ''name'' = JStr ''visitors'' \<and> get_prop body ''id'' = JNum 7)"
proof -
  have seven: "string_of_int 7 = ''7''"
    by (simp add: string_of_int_def string_of_nat.simps)
  show ?thesis
    using create_operations_validate [of "JObj [(''project_id'', JStr ''1'')]" example_client example_world]
      create_operations_validate
        [of "JObj [(''edit_url'', JStr ''http://example.com/''), (''project_id'', JStr ''1'')]"
            example_client example_world]
      create_operations_validate
        [of "JObj [(''name'', JStr ''visitors''), (''id'', JNum 7)]" example_client example_world]
    by (simp add: seven example_client_def)
qed

text \<open>
  The claim as stated fails for \<^verbatim>\<open>createExperiment\<close>: with \<^verbatim>\<open>edit_url\<close> and
  \<^verbatim>\<open>project_id\<close> supplied, the body that is serialised has no \<^verbatim>\<open>project_id\<close>.
\<close>

theorem createExperiment_body_counterexample:
  "sends (createExperiment example_client
            (JObj [(''edit_url'', JStr ''http://example.com/''), (''project_id'', JStr ''1'')])
            example_world)
     (req POST ''https://www.optimizelyapis.com/experiment/v1/projects/1/experiments/'' ''post''
        example_client
        (Some (JObj [(''edit_url'', JStr ''http://example.com/''), (''description'', JStr []),
                     (''custom_css'', JStr []), (''custom_js'', JStr [])])))
     example_world \<and>
   \<not> has_prop (JObj [(''edit_url'', JStr ''http://example.com/''), (''description'', JStr []),
                      (''custom_css'', JStr []), (''custom_js'', JStr [])]) ''project_id''"
  by (simp add: createExperiment_def Let_def assign_or_def js_or_def sends_restAsync_iff req_def
      example_client_def)

section \<open>Updating and upserting\<close>

lemma update_same: "map_of ps k = Some v \<Longrightarrow> AList.update k v ps = ps"
  by (induction ps) auto

lemma assign_or_same: "truthy (get_prop v k) \<Longrightarrow> assign_or v k d = v"
  by (cases v) (auto simp add: assign_or_def js_or_def update_same split: option.splits)

lemma updateExperiment_outcome:
  "(js_String (js_or (get_prop options ''id'') (JStr [])) = [] \<longrightarrow>
      throws (updateExperiment this options w) (Error ''required: options.id'') w) \<and>
   (is_obj options \<and> js_String (js_or (get_prop options ''id'') (JStr [])) \<noteq> [] \<longrightarrow>
      (\<exists>body. sends (updateExperiment this options w)
                (req PUT (baseUrl this @ ''experiments/''
                            @ js_String (js_or (get_prop options ''id'') (JStr [])))
                   ''put'' this (Some body)) w \<and>
         opts (updateExperiment this options w) = body \<and>
         \<not> has_prop body ''id'' \<and>
         get_prop body ''description'' = js_or (get_prop options ''description'') (JStr []) \<and>
         get_prop body ''edit_url'' = js_or (get_prop options ''edit_url'') (JStr []) \<and>
         get_prop body ''custom_css'' = js_or (get_prop options ''custom_css'') (JStr []) \<and>
         get_prop body ''custom_js'' = js_or (get_prop options ''custom_js'') (JStr []) \<and>
         (\<forall>k. k \<notin> {''id'', ''description'', ''edit_url'', ''custom_css'', ''custom_js''} \<longrightarrow>
              get_prop body k = get_prop options k)))"
  unfolding updateExperiment_def Let_def
  by (auto simp add: get_prop_assign_or get_prop_assign_String_or get_prop_or_empty
      is_obj_or_empty throws_throw sends_restAsync_iff req_def get_prop_delete_prop
      has_prop_delete_prop dest: truthy_get_prop_is_obj)

lemma updateVariation_outcome:
  "(\<not> truthy (get_prop options ''id'') \<longrightarrow>
      throws (updateVariation this options w) (Error ''Required: options.id'') w) \<and>
   (truthy (get_prop options ''id'') \<longrightarrow>
      sends (updateVariation this options w)
        (req PUT (baseUrl this @ ''variations/'' @ js_String (get_prop options ''id'')) ''put'' this
           (Some (JObj [(''id'', get_prop options ''id''),
                        (''description'', js_or (get_prop options ''description'') (JStr [])),
                        (''js_component'', js_or (get_prop options ''js_component'') (JStr []))])))
        w)"
  unfolding updateVariation_def Let_def
  by (auto simp add: get_prop_or_empty throws_throw sends_restAsync_iff req_def js_or_left)

lemma updateProject_outcome:
  "(\<not> truthy (get_prop options ''id'') \<longrightarrow>
      throws (updateProject this options w) (Error ''required: options.id'') w) \<and>
   (truthy (get_prop options ''id'') \<longrightarrow>
      sends (updateProject this options w)
        (req PUT (baseUrl this @ ''projects/'' @ js_String (get_prop options ''id'')) ''put'' this
           (Some options)) w)"
  unfolding updateProject_def Let_def
  by (auto simp add: get_prop_assign_or get_prop_or_empty is_obj_or_empty throws_throw
      sends_restAsync_iff req_def assign_or_same is_obj_truthy js_or_left
      dest: truthy_get_prop_is_obj)

lemma updateAudience_outcome:
  "(\<not> truthy (get_prop options ''id'') \<longrightarrow>
      throws (updateAudience this options w) (Error ''required: options.id'') w) \<and>
   (truthy (get_prop options ''id'') \<longrightarrow>
      sends (updateAudience this options w)
        (req PUT (baseUrl this @ ''audiences/'' @ js_String (get_prop options ''id'')) ''put'' this
           (Some options)) w)"
  unfolding updateAudience_def Let_def
  by (auto simp add: get_prop_assign_or get_prop_or_empty is_obj_or_empty throws_throw
      sends_restAsync_iff req_def assign_or_same is_obj_truthy js_or_left
      dest: truthy_get_prop_is_obj)

lemma updateDimension_outcome:
  "(\<not> truthy (get_prop options ''id'') \<longrightarrow>
      throws (updateDimension this options w) (Error ''required: options.id'') w) \<and>
   (truthy (get_prop options ''id'') \<longrightarrow>
      sends (updateDimension this options w)
        (req PUT (baseUrl this @ ''dimensions/'' @ js_String (get_prop options ''id'')) ''put'' this
           (Some options)) w)"
  unfolding updateDimension_def Let_def
  by (auto simp add: get_prop_assign_or get_prop_or_empty is_obj_or_empty throws_throw
      sends_restAsync_iff req_def assign_or_same is_obj_truthy js_or_left
      dest: truthy_get_prop_is_obj)

lemma createVariation_outcome:
  "(js_String (js_or (get_prop options ''experiment_id'') (JStr [])) = [] \<longrightarrow>
      throws (createVariation this options w) (Error ''Required: options.experiment_id'') w) \<and>
   (is_obj options \<and> js_String (js_or (get_prop options ''experiment_id'') (JStr [])) \<noteq> [] \<longrightarrow>
      (\<exists>body. sends (createVariation this options w)
                (req POST (baseUrl this @ ''experiments/''
                             @ js_String (js_or (get_prop options ''experiment_id'') (JStr []))
                             @ ''/variations/'')
                   ''post'' this (Some body)) w \<and>
         opts (createVariation this options w) = body \<and>
         \<not> has_prop body ''experiment_id''))"
  unfolding createVariation_def Let_def
  by (auto simp add: get_prop_assign_or get_prop_assign_String_or get_prop_or_empty
      is_obj_or_empty throws_throw sends_restAsync_iff req_def get_prop_delete_prop
      has_prop_delete_prop dest: truthy_get_prop_is_obj)


lemma ret_throw [simp]: "ret (throw options e w) = Inl e"
  by (simp add: throw_def)

lemma ret_restAsync [simp]:
  "ret (restAsync v u m hs body options w) \<noteq> Inl e"
  by (simp add: restAsync_def Let_def)

lemma pushExperiment_outcome:
  "(truthy (get_prop options ''id'') \<and> js_String (get_prop options ''id'') \<noteq> [] \<longrightarrow>
      (\<exists>body. sends (pushExperiment this options w)
                (req PUT (baseUrl this @ ''experiments/'' @ js_String (get_prop options ''id''))
                   ''put'' this (Some body)) w)) \<and>
   (truthy (get_prop options ''id'') \<and> js_String (get_prop options ''id'') = [] \<longrightarrow>
      throws (pushExperiment this options w) (Error ''required: options.id'') w) \<and>
   (\<not> truthy (get_prop options ''id'') \<and> \<not> truthy (get_prop options ''edit_url'') \<longrightarrow>
      throws (pushExperiment this options w) (Error ''Required: options.edit_url'') w) \<and>
   (\<not> truthy (get_prop options ''id'') \<and> truthy (get_prop options ''edit_url'') \<and>
    \<not> truthy (get_prop options ''project_id'') \<longrightarrow>
      throws (pushExperiment this options w) (Error ''Required: options.project_id'') w) \<and>
   (\<not> truthy (get_prop options ''id'') \<and> truthy (get_prop options ''edit_url'') \<and>
    truthy (get_prop options ''project_id'') \<longrightarrow>
      (\<exists>body. sends (pushExperiment this options w)
                (req POST (baseUrl this @ ''projects/'' @ js_String (get_prop options ''project_id'')
                             @ ''/experiments/'') ''post'' this (Some body)) w))"
proof -
  let ?o = "assign_or (js_or options (JObj [])) ''id'' (JStr [])"
  have props:
    "get_prop ?o ''edit_url'' = get_prop options ''edit_url''"
    "get_prop ?o ''project_id'' = get_prop options ''project_id''"
    "truthy (get_prop ?o ''id'') = truthy (get_prop options ''id'')"
    by (simp_all add: get_prop_assign_or get_prop_or_empty)
  have push: "pushExperiment this options w =
      (if truthy (get_prop options ''id'') then updateExperiment this ?o w
       else createExperiment this ?o w)"
    by (simp add: pushExperiment_def Let_def props)
  have update: "pushExperiment this options w = updateExperiment this options w"
    if "truthy (get_prop options ''id'')"
  proof -
    from that have "is_obj options" by (rule truthy_get_prop_is_obj)
    then have "js_or options (JObj []) = options" by (simp add: js_or_left is_obj_truthy)
    with that have "?o = options" by (simp add: assign_or_same)
    with that show ?thesis by (simp add: push)
  qed
  have create: "pushExperiment this options w = createExperiment this ?o w"
    if "\<not> truthy (get_prop options ''id'')"
    using that by (simp add: push)
  note upd = updateExperiment_outcome [of options this w]
  note cre = createExperiment_outcome [of ?o this w, unfolded props]
  show ?thesis
  proof (intro conjI impI; (elim conjE)?)
    assume id: "truthy (get_prop options ''id'')" and s: "js_String (get_prop options ''id'') \<noteq> []"
    from id have "is_obj options" by (rule truthy_get_prop_is_obj)
    with id s upd show "\<exists>body. sends (pushExperiment this options w)
        (req PUT (baseUrl this @ ''experiments/'' @ js_String (get_prop options ''id''))
           ''put'' this (Some body)) w"
      by (simp add: update js_or_left) blast
  next
    assume id: "truthy (get_prop options ''id'')" and s: "js_String (get_prop options ''id'') = []"
    with upd show "throws (pushExperiment this options w) (Error ''required: options.id'') w"
      by (simp add: update js_or_left)
  next
    assume "\<not> truthy (get_prop options ''id'')" "\<not> truthy (get_prop options ''edit_url'')"
    with cre show "throws (pushExperiment this options w) (Error ''Required: options.edit_url'') w"
      by (simp add: create)
  next
    assume "\<not> truthy (get_prop options ''id'')" "truthy (get_prop options ''edit_url'')"
      "\<not> truthy (get_prop options ''project_id'')"
    with cre show "throws (pushExperiment this options w) (Error ''Required: options.project_id'') w"
      by (simp add: create)
  next
    assume "\<not> truthy (get_prop options ''id'')" "truthy (get_prop options ''edit_url'')"
      "truthy (get_prop options ''project_id'')"
    with cre show "\<exists>body. sends (pushExperiment this options w)
        (req POST (baseUrl this @ ''projects/'' @ js_String (get_prop options ''project_id'')
                     @ ''/experiments/'') ''post'' this (Some body)) w"
      by (simp add: create) blast
  qed
qed

lemma pushVariation_outcome:
  "(truthy (get_prop options ''id'') \<longrightarrow>
      (\<exists>body. sends (pushVariation this options w)
                (req PUT (baseUrl this @ ''variations/'' @ js_String (get_prop options ''id''))
                   ''put'' this (Some body)) w)) \<and>
   (\<not> truthy (get_prop options ''id'') \<and>
    js_String (js_or (get_prop options ''experiment_id'') (JStr [])) = [] \<longrightarrow>
      throws (pushVariation this options w) (Error ''Required: options.experiment_id'') w) \<and>
   (\<not> truthy (get_prop options ''id'') \<and>
    js_String (js_or (get_prop options ''experiment_id'') (JStr [])) \<noteq> [] \<longrightarrow>
      (\<exists>body. sends (pushVariation this options w)
                (req POST (baseUrl this @ ''experiments/''
                             @ js_String (js_or (get_prop options ''experiment_id'') (JStr []))
                             @ ''/variations/'') ''post'' this (Some body)) w))"
proof -
  let ?o = "assign_or (js_or options (JObj [])) ''id'' (JStr [])"
  have props:
    "get_prop ?o ''experiment_id'' = get_prop options ''experiment_id''"
    "truthy (get_prop ?o ''id'') = truthy (get_prop options ''id'')"
    by (simp_all add: get_prop_assign_or get_prop_or_empty)
  have push: "pushVariation this options w =
      (if truthy (get_prop options ''id'') then updateVariation this ?o w
       else createVariation this ?o w)"
    by (simp add: pushVariation_def Let_def props)
  have update: "pushVariation this options w = updateVariation this options w"
    if "truthy (get_prop options ''id'')"
  proof -
    from that have "is_obj options" by (rule truthy_get_prop_is_obj)
    then have "js_or options (JObj []) = options" by (simp add: js_or_left is_obj_truthy)
    with that have "?o = options" by (simp add: assign_or_same)
    with that show ?thesis by (simp add: push)
  qed
  have create: "pushVariation this options w = createVariation this ?o w"
    if "\<not> truthy (get_prop options ''id'')"
    using that by (simp add: push)
  note upd = updateVariation_outcome [of options this w]
  note cre = createVariation_outcome [of ?o this w, unfolded props]
  show ?thesis
  proof (intro conjI impI; (elim conjE)?)
    assume "truthy (get_prop options ''id'')"
    with upd show "\<exists>body. sends (pushVariation this options w)
        (req PUT (baseUrl this @ ''variations/'' @ js_String (get_prop options ''id''))
           ''put'' this (Some body)) w"
      by (simp add: update) blast
  next
    assume "\<not> truthy (get_prop options ''id'')"
      "js_String (js_or (get_prop options ''experiment_id'') (JStr [])) = []"
    with cre show "throws (pushVariation this options w) (Error ''Required: options.experiment_id'') w"
      by (simp add: create)
  next
    assume id: "\<not> truthy (get_prop options ''id'')"
      and s: "js_String (js_or (get_prop options ''experiment_id'') (JStr [])) \<noteq> []"
    from s have "truthy (get_prop options ''experiment_id'')"
      by (auto simp add: js_or_def split: if_splits)
    then have "is_obj options" by (rule truthy_get_prop_is_obj)
    then have "is_obj ?o" by (simp add: is_obj_or_empty)
    with id s cre show "\<exists>body. sends (pushVariation this options w)
        (req POST (baseUrl this @ ''experiments/''
                     @ js_String (js_or (get_prop options ''experiment_id'') (JStr []))
                     @ ''/variations/'') ''post'' this (Some body)) w"
      by (simp add: create) blast
  qed
qed


text \<open>
  Claim C3, as amended. \<^verbatim>\<open>pushExperiment\<close> and \<^verbatim>\<open>pushVariation\<close> look at nothing but
  the truthiness of \<^verbatim>\<open>options.id\<close>, and make no request of their own. With a truthy
  \<^verbatim>\<open>id\<close> the outcome is the update's: one PUT to \<^verbatim>\<open>experiments/<id>\<close> or
  \<^verbatim>\<open>variations/<id>\<close> (or the update's own \<^verbatim>\<open>required: options.id\<close> when the
  identifier converts to the empty string). Otherwise the outcome is the create's, and
  the create still validates: without \<^verbatim>\<open>edit_url\<close> or \<^verbatim>\<open>project_id\<close>
  (\<^verbatim>\<open>experiment_id\<close> for a variation) it throws and no request goes out; with them one
  POST goes to the collection URL.
\<close>

theorem push_dispatch:
  "((truthy (get_prop options ''id'') \<and> js_String (get_prop options ''id'') \<noteq> [] \<longrightarrow>
      (\<exists>body. sends (pushExperiment this options w)
                (req PUT (baseUrl this @ ''experiments/'' @ js_String (get_prop options ''id''))
                   ''put'' this (Some body)) w)) \<and>
   (truthy (get_prop options ''id'') \<and> js_String (get_prop options ''id'') = [] \<longrightarrow>
      throws (pushExperiment this options w) (Error ''required: options.id'') w) \<and>
   (\<not> truthy (get_prop options ''id'') \<and> \<not> truthy (get_prop options ''edit_url'') \<longrightarrow>
      throws (pushExperiment this options w) (Error ''Required: options.edit_url'') w) \<and>
   (\<not> truthy (get_prop options ''id'') \<and> truthy (get_prop options ''edit_url'') \<and>
    \<not> truthy (get_prop options ''project_id'') \<longrightarrow>
      throws (pushExperiment this options w) (Error ''Required: options.project_id'') w) \<and>
   (\<not> truthy (get_prop options ''id'') \<and> truthy (get_prop options ''edit_url'') \<and>
    truthy (get_prop options ''project_id'') \<longrightarrow>
      (\<exists>body. sends (pushExperiment this options w)
                (req POST (baseUrl this @ ''projects/'' @ js_String (get_prop options ''project_id'')
                             @ ''/experiments/'') ''post'' this (Some body)) w))) \<and>
   ((truthy (get_prop options ''id'') \<longrightarrow>
      (\<exists>body. sends (pushVariation this options w)
                (req PUT (baseUrl this @ ''variations/'' @ js_String (get_prop options ''id''))
                   ''put'' this (Some body)) w)) \<and>
   (\<not> truthy (get_prop options ''id'') \<and>
    js_String (js_or (get_prop options ''experiment_id'') (JStr [])) = [] \<longrightarrow>
      throws (pushVariation this options w) (Error ''Required: options.experiment_id'') w) \<and>
   (\<not> truthy (get_prop options ''id'') \<and>
    js_String (js_or (get_prop options ''experiment_id'') (JStr [])) \<noteq> [] \<longrightarrow>
      (\<exists>body. sends (pushVariation this options w)
                (req POST (baseUrl this @ ''experiments/''
                             @ js_String (js_or (get_prop options ''experiment_id'') (JStr []))
                             @ ''/variations/'') ''post'' this (Some body)) w)))"
  by (rule conjI [OF pushExperiment_outcome pushVariation_outcome])

theorem push_dispatch_witness:
  "(\<exists>body. sends (pushExperiment example_client
                    (JObj [(''id'', JStr ''42''), (''edit_url'', JStr ''http://example.com/''),
                           (''project_id'', JStr ''1'')]) example_world)
             (req PUT ''https://www.optimizelyapis.com/experiment/v1/experiments/42'' ''put''
                example_client (Some body)) example_world) \<and>
   (\<exists>body. sends (pushExperiment example_client
                    (JObj [(''edit_url'', JStr ''http://example.com/''), (''project_id'', JStr ''1'')])
                    example_world)
             (req POST ''https://www.optimizelyapis.com/experiment/v1/projects/1/experiments/''
                ''post'' example_client (Some body)) example_world) \<and>
   (\<exists>body. sends (pushVariation example_client
                    (JObj [(''id'', JStr ''9''), (''description'', JStr ''B'')]) example_world)
             (req PUT ''https://www.optimizelyapis.com/experiment/v1/variations/9'' ''put''
                example_client (Some body)) example_world) \<and>
   (\<exists>body. sends (pushVariation example_client
                    (JObj [(''experiment_id'', JStr ''42''), (''description'', JStr ''B'')])
                    example_world)
             (req POST ''https://www.optimizelyapis.com/experiment/v1/experiments/42/variations/''
                ''post'' example_client (Some body)) example_world)"
  using
    push_dispatch [of "JObj [(''id'', JStr ''42''), (''edit_url'', JStr ''http://example.com/''),
                             (''project_id'', JStr ''1'')]" example_client example_world]
    push_dispatch [of "JObj [(''edit_url'', JStr ''http://example.com/''), (''project_id'', JStr ''1'')]"
                      example_client example_world]
    push_dispatch [of "JObj [(''id'', JStr ''9''), (''description'', JStr ''B'')]"
                      example_client example_world]
    push_dispatch [of "JObj [(''experiment_id'', JStr ''42''), (''description'', JStr ''B'')]"
                      example_client example_world]
  by (simp add: example_client_def js_or_def)

text \<open>
  The claim as stated fails at \<^verbatim>\<open>pushExperiment({})\<close>: the call is dispatched to
  \<^verbatim>\<open>createExperiment\<close>, which throws for the missing \<^verbatim>\<open>edit_url\<close>; no create request
  is issued.
\<close>

theorem pushExperiment_empty_counterexample:
  "throws (pushExperiment example_client (JObj []) example_world)
     (Error ''Required: options.edit_url'') example_world \<and>
   calls (net (pushExperiment example_client (JObj []) example_world)) = []"
  by (simp add: pushExperiment_def createExperiment_def Let_def assign_or_def js_or_def
      throws_def throw_def example_world_def)

text \<open>
  Claim C7, as amended. \<^verbatim>\<open>updateVariation\<close> serialises exactly \<^verbatim>\<open>id\<close>,
  \<^verbatim>\<open>description\<close> and \<^verbatim>\<open>js_component\<close>. \<^verbatim>\<open>updateProject\<close>, \<^verbatim>\<open>updateAudience\<close> and
  \<^verbatim>\<open>updateDimension\<close> serialise the caller's options as they are, the identifier
  included. \<^verbatim>\<open>updateExperiment\<close> alone removes \<^verbatim>\<open>id\<close> from the body; it also fills
  \<^verbatim>\<open>description\<close>, \<^verbatim>\<open>edit_url\<close>, \<^verbatim>\<open>custom_css\<close> and \<^verbatim>\<open>custom_js\<close> with the empty
  string when they are missing, and forwards every other field unchanged.
\<close>

theorem update_bodies:
  "(truthy (get_prop options ''id'') \<longrightarrow>
      sends (updateVariation this options w)
        (req PUT (baseUrl this @ ''variations/'' @ js_String (get_prop options ''id'')) ''put'' this
           (Some (JObj [(''id'', get_prop options ''id''),
                        (''description'', js_or (get_prop options ''description'') (JStr [])),
                        (''js_component'', js_or (get_prop options ''js_component'') (JStr []))])))
        w) \<and>
   (truthy (get_prop options ''id'') \<longrightarrow>
      sends (updateProject this options w)
        (req PUT (baseUrl this @ ''projects/'' @ js_String (get_prop options ''id'')) ''put'' this
           (Some options)) w) \<and>
   (truthy (get_prop options ''id'') \<longrightarrow>
      sends (updateAudience this options w)
        (req PUT (baseUrl this @ ''audiences/'' @ js_String (get_prop options ''id'')) ''put'' this
           (Some options)) w) \<and>
   (truthy (get_prop options ''id'') \<longrightarrow>
      sends (updateDimension this options w)
        (req PUT (baseUrl this @ ''dimensions/'' @ js_String (get_prop options ''id'')) ''put'' this
           (Some options)) w) \<and>
   (truthy (get_prop options ''id'') \<and> js_String (get_prop options ''id'') \<noteq> [] \<longrightarrow>
      (\<exists>body. sends (updateExperiment this options w)
                (req PUT (baseUrl this @ ''experiments/'' @ js_String (get_prop options ''id''))
                   ''put'' this (Some body)) w \<and>
         \<not> has_prop body ''id'' \<and>
         get_prop body ''description'' = js_or (get_prop options ''description'') (JStr []) \<and>
         get_prop body ''edit_url'' = js_or (get_prop options ''edit_url'') (JStr []) \<and>
         get_prop body ''custom_css'' = js_or (get_prop options ''custom_css'') (JStr []) \<and>
         get_prop body ''custom_js'' = js_or (get_prop options ''custom_js'') (JStr []) \<and>
         (\<forall>k. k \<notin> {''id'', ''description'', ''edit_url'', ''custom_css'', ''custom_js''} \<longrightarrow>
              get_prop body k = get_prop options k)))"
proof (intro conjI)
  show "truthy (get_prop options ''id'') \<and> js_String (get_prop options ''id'') \<noteq> [] \<longrightarrow>
      (\<exists>body. sends (updateExperiment this options w)
                (req PUT (baseUrl this @ ''experiments/'' @ js_String (get_prop options ''id''))
                   ''put'' this (Some body)) w \<and>
         \<not> has_prop body ''id'' \<and>
         get_prop body ''description'' = js_or (get_prop options ''description'') (JStr []) \<and>
         get_prop body ''edit_url'' = js_or (get_prop options ''edit_url'') (JStr []) \<and>
         get_prop body ''custom_css'' = js_or (get_prop options ''custom_css'') (JStr []) \<and>
         get_prop body ''custom_js'' = js_or (get_prop options ''custom_js'') (JStr []) \<and>
         (\<forall>k. k \<notin> {''id'', ''description'', ''edit_url'', ''custom_css'', ''custom_js''} \<longrightarrow>
              get_prop body k = get_prop options k))"
  proof (intro impI, elim conjE)
    assume id: "truthy (get_prop options ''id'')" and s: "js_String (get_prop options ''id'') \<noteq> []"
    from id have obj: "is_obj options" by (rule truthy_get_prop_is_obj)
    from id have eq: "js_or (get_prop options ''id'') (JStr []) = get_prop options ''id''"
      by (rule js_or_left)
    from updateExperiment_outcome [of options this w, unfolded eq, THEN conjunct2, rule_format,
        OF conjI [OF obj s]]
    obtain body where b: "sends (updateExperiment this options w)
                (req PUT (baseUrl this @ ''experiments/'' @ js_String (get_prop options ''id''))
                   ''put'' this (Some body)) w"
         "\<not> has_prop body ''id''"
         "get_prop body ''description'' = js_or (get_prop options ''description'') (JStr [])"
         "get_prop body ''edit_url'' = js_or (get_prop options ''edit_url'') (JStr [])"
         "get_prop body ''custom_css'' = js_or (get_prop options ''custom_css'') (JStr [])"
         "get_prop body ''custom_js'' = js_or (get_prop options ''custom_js'') (JStr [])"
         "\<forall>k. k \<notin> {''id'', ''description'', ''edit_url'', ''custom_css'', ''custom_js''} \<longrightarrow>
              get_prop body k = get_prop options k"
      by blast
    then show "\<exists>body. sends (updateExperiment this options w)
                (req PUT (baseUrl this @ ''experiments/'' @ js_String (get_prop options ''id''))
                   ''put'' this (Some body)) w \<and>
         \<not> has_prop body ''id'' \<and>
         get_prop body ''description'' = js_or (get_prop options ''description'') (JStr []) \<and>
         get_prop body ''edit_url'' = js_or (get_prop options ''edit_url'') (JStr []) \<and>
         get_prop body ''custom_css'' = js_or (get_prop options ''custom_css'') (JStr []) \<and>
         get_prop body ''custom_js'' = js_or (get_prop options ''custom_js'') (JStr []) \<and>
         (\<forall>k. k \<notin> {''id'', ''description'', ''edit_url'', ''custom_css'', ''custom_js''} \<longrightarrow>
              get_prop body k = get_prop options k)"
      by (intro exI [of _ body] conjI)
  qed
qed (rule updateVariation_outcome [THEN conjunct2] updateProject_outcome [THEN conjunct2]
       updateAudience_outcome [THEN conjunct2] updateDimension_outcome [THEN conjunct2])+

theorem update_bodies_witness:
  "sends (updateVariation example_client
            (JObj [(''id'', JStr ''9''), (''description'', JStr ''B''), (''weight'', JNum 5000)])
            example_world)
     (req PUT ''https://www.optimizelyapis.com/experiment/v1/variations/9'' ''put'' example_client
        (Some (JObj [(''id'', JStr ''9''), (''description'', JStr ''B''),
                     (''js_component'', JStr [])])))
     example_world \<and>
   sends (updateAudience example_client
            (JObj [(''id'', JStr ''9''), (''description'', JStr ''B''), (''weight'', JNum 5000)])
            example_world)
     (req PUT ''https://www.optimizelyapis.com/experiment/v1/audiences/9'' ''put'' example_client
        (Some (JObj [(''id'', JStr ''9''), (''description'', JStr ''B''), (''weight'', JNum 5000)])))
     example_world \<and>
   (\<exists>body. sends (updateExperiment example_client
            (JObj [(''id'', JStr ''9''), (''description'', JStr ''B''), (''weight'', JNum 5000)])
            example_world)
       (req PUT ''https://www.optimizelyapis.com/experiment/v1/experiments/9'' ''put''
          example_client (Some body))
       example_world \<and>
     \<not> has_prop body ''id'' \<and> get_prop body ''description'' = JStr ''B'' \<and>
     get_prop body ''edit_url'' = JStr [] \<and> get_prop body ''weight'' = JNum 5000)"
proof -
  let ?o = "JObj [(''id'', JStr ''9''), (''description'', JStr ''B''), (''weight'', JNum 5000)]"
  note all = update_bodies [of ?o example_client example_world]
  have id: "truthy (get_prop ?o ''id'')" "js_String (get_prop ?o ''id'') \<noteq> []"
    by simp_all
  have url: "baseUrl example_client = ''https://www.optimizelyapis.com/experiment/v1/''"
    by (simp add: example_client_def)
  from all [THEN conjunct1, rule_format, OF id(1)]
  have variation: "sends (updateVariation example_client ?o example_world)
     (req PUT ''https://www.optimizelyapis.com/experiment/v1/variations/9'' ''put'' example_client
        (Some (JObj [(''id'', JStr ''9''), (''description'', JStr ''B''),
                     (''js_component'', JStr [])]))) example_world"
    by (simp add: url js_or_def)
  from all [THEN conjunct2, THEN conjunct2, THEN conjunct1, rule_format, OF id(1)]
  have audience: "sends (updateAudience example_client ?o example_world)
     (req PUT ''https://www.optimizelyapis.com/experiment/v1/audiences/9'' ''put'' example_client
        (Some ?o)) example_world"
    by (simp add: url)
  from all [THEN conjunct2, THEN conjunct2, THEN conjunct2, THEN conjunct2, rule_format,
      OF conjI [OF id]]
  obtain body where b:
    "sends (updateExperiment example_client ?o example_world)
       (req PUT (baseUrl example_client @ ''experiments/'' @ js_String (get_prop ?o ''id''))
          ''put'' example_client (Some body)) example_world"
    "\<not> has_prop body ''id''"
    "get_prop body ''description'' = js_or (get_prop ?o ''description'') (JStr [])"
    "get_prop body ''edit_url'' = js_or (get_prop ?o ''edit_url'') (JStr [])"
    "\<forall>k. k \<notin> {''id'', ''description'', ''edit_url'', ''custom_css'', ''custom_js''} \<longrightarrow>
       get_prop body k = get_prop ?o k"
    by blast
  from b(5) [rule_format, of "''weight''"] have weight: "get_prop body ''weight'' = JNum 5000"
    by simp
  from b(1) have exp_sent: "sends (updateExperiment example_client ?o example_world)
       (req PUT ''https://www.optimizelyapis.com/experiment/v1/experiments/9'' ''put''
          example_client (Some body)) example_world"
    by (simp add: url)
  from b(3) have description: "get_prop body ''description'' = JStr ''B''"
    by (simp add: js_or_def)
  from b(4) have edit_url: "get_prop body ''edit_url'' = JStr []"
    by (simp add: js_or_def)
  from exp_sent b(2) description edit_url weight
  have "\<exists>body. sends (updateExperiment example_client ?o example_world)
       (req PUT ''https://www.optimizelyapis.com/experiment/v1/experiments/9'' ''put''
          example_client (Some body)) example_world \<and>
     \<not> has_prop body ''id'' \<and> get_prop body ''description'' = JStr ''B'' \<and>
     get_prop body ''edit_url'' = JStr [] \<and> get_prop body ''weight'' = JNum 5000"
    by (intro exI [of _ body] conjI)
  with variation audience show ?thesis
    by (intro conjI)
qed

text \<open>
  The claim as stated fails for \<^verbatim>\<open>updateProject\<close>: the body that is serialised still
  has the \<^verbatim>\<open>id\<close> field.
\<close>

theorem updateProject_body_counterexample:
  "sends (updateProject example_client
            (JObj [(''id'', JStr ''5''), (''project_name'', JStr ''renamed'')]) example_world)
     (req PUT ''https://www.optimizelyapis.com/experiment/v1/projects/5'' ''put'' example_client
        (Some (JObj [(''id'', JStr ''5''), (''project_name'', JStr ''renamed'')])))
     example_world \<and>
   has_prop (JObj [(''id'', JStr ''5''), (''project_name'', JStr ''renamed'')]) ''id''"
  by (simp add: updateProject_def Let_def assign_or_def js_or_def sends_restAsync_iff req_def
      example_client_def)

section \<open>What a call does to the caller's options\<close>

text \<open>
  With their mandatory fields present the three methods below reach the request, and the
  result is spelled out: the request that goes out, and the object the assignments and
  the \<^verbatim>\<open>delete\<close> have left.
\<close>

lemma truthy_get_prop_has_prop: "truthy (get_prop v k) \<Longrightarrow> has_prop v k"
  by (cases v) (auto split: option.splits dest!: map_of_SomeD intro: rev_image_eqI)

lemma createExperiment_returns:
  assumes "truthy (get_prop options ''edit_url'')" and "truthy (get_prop options ''project_id'')"
  shows "createExperiment this options w =
     restAsync POST
       (baseUrl this @ ''projects/'' @ js_String (get_prop options ''project_id'') @ ''/experiments/'')
       ''post'' (baseHeaders this)
       (Some (delete_prop (assign_or (assign_or (assign_or (assign_or (assign_or options
          ''description'' (JStr [])) ''project_id'' (JStr [])) ''edit_url'' (JStr []))
          ''custom_css'' (JStr [])) ''custom_js'' (JStr [])) ''project_id''))
       (delete_prop (assign_or (assign_or (assign_or (assign_or (assign_or options
          ''description'' (JStr [])) ''project_id'' (JStr [])) ''edit_url'' (JStr []))
          ''custom_css'' (JStr [])) ''custom_js'' (JStr [])) ''project_id'')
       w"
proof -
  from assms(1) have obj: "is_obj options" by (rule truthy_get_prop_is_obj)
  then have o: "js_or options (JObj []) = options"
    by (simp add: js_or_left is_obj_truthy)
  show ?thesis
    using assms
    by (simp add: createExperiment_def Let_def o obj get_prop_assign_or js_or_left)
qed

lemma updateExperiment_returns:
  assumes "truthy (get_prop options ''id'')" and "js_String (get_prop options ''id'') \<noteq> []"
  shows "updateExperiment this options w =
     restAsync PUT (baseUrl this @ ''experiments/'' @ js_String (get_prop options ''id''))
       ''put'' (baseHeaders this)
       (Some (delete_prop (assign_or (assign_or (assign_or (assign_or (assign_String_or options
          ''id'') ''description'' (JStr [])) ''edit_url'' (JStr [])) ''custom_css'' (JStr []))
          ''custom_js'' (JStr [])) ''id''))
       (delete_prop (assign_or (assign_or (assign_or (assign_or (assign_String_or options
          ''id'') ''description'' (JStr [])) ''edit_url'' (JStr [])) ''custom_css'' (JStr []))
          ''custom_js'' (JStr [])) ''id'')
       w"
proof -
  from assms(1) have obj: "is_obj options" by (rule truthy_get_prop_is_obj)
  then have o: "js_or options (JObj []) = options"
    by (simp add: js_or_left is_obj_truthy)
  show ?thesis
    using assms
    by (simp add: updateExperiment_def Let_def o obj get_prop_assign_or get_prop_assign_String_or
        js_or_left)
qed

lemma createVariation_returns:
  assumes "truthy (get_prop options ''experiment_id'')"
    and "js_String (get_prop options ''experiment_id'') \<noteq> []"
  shows "createVariation this options w =
     restAsync POST
       (baseUrl this @ ''experiments/'' @ js_String (get_prop options ''experiment_id'')
          @ ''/variations/'')
       ''post'' (baseHeaders this)
       (Some (delete_prop (assign_or (assign_String_or options ''experiment_id'')
          ''description'' (JStr [])) ''experiment_id''))
       (delete_prop (assign_or (assign_String_or options ''experiment_id'')
          ''description'' (JStr [])) ''experiment_id'')
       w"
proof -
  from assms(1) have obj: "is_obj options" by (rule truthy_get_prop_is_obj)
  then have o: "js_or options (JObj []) = options"
    by (simp add: js_or_left is_obj_truthy)
  show ?thesis
    using assms
    by (simp add: createVariation_def Let_def o obj get_prop_assign_or get_prop_assign_String_or
        js_or_left)
qed

lemma createExperiment_mutates:
  assumes t: "truthy (get_prop options ''edit_url'')"
    "truthy (get_prop options ''project_id'')"
  shows "is_obj options \<and> has_prop options ''project_id'' \<and>
      sends (createExperiment this options w)
        (req POST (baseUrl this @ ''projects/'' @ js_String (get_prop options ''project_id'')
                     @ ''/experiments/'') ''post'' this
           (Some (opts (createExperiment this options w)))) w \<and>
      is_obj (opts (createExperiment this options w)) \<and>
      \<not> has_prop (opts (createExperiment this options w)) ''project_id'' \<and>
      has_prop (opts (createExperiment this options w)) ''description'' \<and>
      has_prop (opts (createExperiment this options w)) ''custom_css'' \<and>
      has_prop (opts (createExperiment this options w)) ''custom_js'' \<and>
      get_prop (opts (createExperiment this options w)) ''description'' =
        js_or (get_prop options ''description'') (JStr []) \<and>
      get_prop (opts (createExperiment this options w)) ''custom_css'' =
        js_or (get_prop options ''custom_css'') (JStr []) \<and>
      get_prop (opts (createExperiment this options w)) ''custom_js'' =
        js_or (get_prop options ''custom_js'') (JStr []) \<and>
      get_prop (opts (createExperiment this options w)) ''edit_url'' =
        get_prop options ''edit_url'' \<and>
      (\<forall>k. k \<notin> {''project_id'', ''description'', ''edit_url'', ''custom_css'', ''custom_js''} \<longrightarrow>
           get_prop (opts (createExperiment this options w)) k = get_prop options k \<and>
           has_prop (opts (createExperiment this options w)) k = has_prop options k)"
proof -
  from t(1) have obj: "is_obj options" by (rule truthy_get_prop_is_obj)
  from t(2) have had: "has_prop options ''project_id''" by (rule truthy_get_prop_has_prop)
  note r = createExperiment_returns [OF t, of this w]
  show ?thesis
    using obj had t(1)
    by (simp add: r sends_restAsync_iff req_def get_prop_delete_prop get_prop_assign_or
        has_prop_delete_prop has_prop_assign_or js_or_left)
qed

lemma updateExperiment_mutates:
  assumes t: "truthy (get_prop options ''id'')"
    "js_String (get_prop options ''id'') \<noteq> []"
  shows "is_obj options \<and> has_prop options ''id'' \<and>
      sends (updateExperiment this options w)
        (req PUT (baseUrl this @ ''experiments/'' @ js_String (get_prop options ''id'')) ''put'' this
           (Some (opts (updateExperiment this options w)))) w \<and>
      is_obj (opts (updateExperiment this options w)) \<and>
      \<not> has_prop (opts (updateExperiment this options w)) ''id'' \<and>
      get_prop (opts (updateExperiment this options w)) ''description'' =
        js_or (get_prop options ''description'') (JStr []) \<and>
      get_prop (opts (updateExperiment this options w)) ''edit_url'' =
        js_or (get_prop options ''edit_url'') (JStr []) \<and>
      get_prop (opts (updateExperiment this options w)) ''custom_css'' =
        js_or (get_prop options ''custom_css'') (JStr []) \<and>
      get_prop (opts (updateExperiment this options w)) ''custom_js'' =
        js_or (get_prop options ''custom_js'') (JStr []) \<and>
      (\<forall>k. k \<notin> {''id'', ''description'', ''edit_url'', ''custom_css'', ''custom_js''} \<longrightarrow>
           get_prop (opts (updateExperiment this options w)) k = get_prop options k \<and>
           has_prop (opts (updateExperiment this options w)) k = has_prop options k)"
proof -
  from t(1) have obj: "is_obj options" by (rule truthy_get_prop_is_obj)
  from t(1) have had: "has_prop options ''id''" by (rule truthy_get_prop_has_prop)
  note r = updateExperiment_returns [OF t, of this w]
  show ?thesis
    using obj had
    by (simp add: r sends_restAsync_iff req_def get_prop_delete_prop get_prop_assign_or
        get_prop_assign_String_or has_prop_delete_prop has_prop_assign_or
        has_prop_assign_String_or)
qed

lemma createVariation_mutates:
  assumes t: "truthy (get_prop options ''experiment_id'')"
    "js_String (get_prop options ''experiment_id'') \<noteq> []"
  shows "is_obj options \<and> has_prop options ''experiment_id'' \<and>
      sends (createVariation this options w)
        (req POST (baseUrl this @ ''experiments/'' @ js_String (get_prop options ''experiment_id'')
                     @ ''/variations/'') ''post'' this
           (Some (opts (createVariation this options w)))) w \<and>
      is_obj (opts (createVariation this options w)) \<and>
      \<not> has_prop (opts (createVariation this options w)) ''experiment_id'' \<and>
      has_prop (opts (createVariation this options w)) ''description'' \<and>
      get_prop (opts (createVariation this options w)) ''description'' =
        js_or (get_prop options ''description'') (JStr []) \<and>
      (\<forall>k. k \<notin> {''experiment_id'', ''description''} \<longrightarrow>
           get_prop (opts (createVariation this options w)) k = get_prop options k \<and>
           has_prop (opts (createVariation this options w)) k = has_prop options k)"
proof -
  from t(1) have obj: "is_obj options" by (rule truthy_get_prop_is_obj)
  from t(1) have had: "has_prop options ''experiment_id''" by (rule truthy_get_prop_has_prop)
  note r = createVariation_returns [OF t, of this w]
  show ?thesis
    using obj had
    by (simp add: r sends_restAsync_iff req_def get_prop_delete_prop get_prop_assign_or
        get_prop_assign_String_or has_prop_delete_prop has_prop_assign_or
        has_prop_assign_String_or)
qed

text \<open>
  Claim C10. The methods work on the caller's object itself and serialise it after
  changing it. Called with an \<^verbatim>\<open>edit_url\<close> and a \<^verbatim>\<open>project_id\<close>, \<^verbatim>\<open>createExperiment\<close>
  returns with one POST made; the options were an object with a \<^verbatim>\<open>project_id\<close>, and on
  return that object, which is also the body, has no \<^verbatim>\<open>project_id\<close>, has
  \<^verbatim>\<open>description\<close>, \<^verbatim>\<open>custom_css\<close> and \<^verbatim>\<open>custom_js\<close> set to the caller's value or the
  empty string, and has every other field as the caller left it. Called with an \<^verbatim>\<open>id\<close>,
  \<^verbatim>\<open>updateExperiment\<close> returns with one PUT made and the object has lost \<^verbatim>\<open>id\<close>, with
  four fields defaulted and the others unchanged. Called with an \<^verbatim>\<open>experiment_id\<close>,
  \<^verbatim>\<open>createVariation\<close> returns with one POST made and the object has lost
  \<^verbatim>\<open>experiment_id\<close>, with \<^verbatim>\<open>description\<close> defaulted and the others unchanged.
\<close>

theorem options_object_mutated:
  "(truthy (get_prop options ''edit_url'') \<and> truthy (get_prop options ''project_id'') \<longrightarrow>
      is_obj options \<and> has_prop options ''project_id'' \<and>
      sends (createExperiment this options w)
        (req POST (baseUrl this @ ''projects/'' @ js_String (get_prop options ''project_id'')
                     @ ''/experiments/'') ''post'' this
           (Some (opts (createExperiment this options w)))) w \<and>
      is_obj (opts (createExperiment this options w)) \<and>
      \<not> has_prop (opts (createExperiment this options w)) ''project_id'' \<and>
      has_prop (opts (createExperiment this options w)) ''description'' \<and>
      has_prop (opts (createExperiment this options w)) ''custom_css'' \<and>
      has_prop (opts (createExperiment this options w)) ''custom_js'' \<and>
      get_prop (opts (createExperiment this options w)) ''description'' =
        js_or (get_prop options ''description'') (JStr []) \<and>
      get_prop (opts (createExperiment this options w)) ''custom_css'' =
        js_or (get_prop options ''custom_css'') (JStr []) \<and>
      get_prop (opts (createExperiment this options w)) ''custom_js'' =
        js_or (get_prop options ''custom_js'') (JStr []) \<and>
      get_prop (opts (createExperiment this options w)) ''edit_url'' =
        get_prop options ''edit_url'' \<and>
      (\<forall>k. k \<notin> {''project_id'', ''description'', ''edit_url'', ''custom_css'', ''custom_js''} \<longrightarrow>
           get_prop (opts (createExperiment this options w)) k = get_prop options k \<and>
           has_prop (opts (createExperiment this options w)) k = has_prop options k)) \<and>
   (truthy (get_prop options ''id'') \<and> js_String (get_prop options ''id'') \<noteq> [] \<longrightarrow>
      is_obj options \<and> has_prop options ''id'' \<and>
      sends (updateExperiment this options w)
        (req PUT (baseUrl this @ ''experiments/'' @ js_String (get_prop options ''id'')) ''put'' this
           (Some (opts (updateExperiment this options w)))) w \<and>
      is_obj (opts (updateExperiment this options w)) \<and>
      \<not> has_prop (opts (updateExperiment this options w)) ''id'' \<and>
      get_prop (opts (updateExperiment this options w)) ''description'' =
        js_or (get_prop options ''description'') (JStr []) \<and>
      get_prop (opts (updateExperiment this options w)) ''edit_url'' =
        js_or (get_prop options ''edit_url'') (JStr []) \<and>
      get_prop (opts (updateExperiment this options w)) ''custom_css'' =
        js_or (get_prop options ''custom_css'') (JStr []) \<and>
      get_prop (opts (updateExperiment this options w)) ''custom_js'' =
        js_or (get_prop options ''custom_js'') (JStr []) \<and>
      (\<forall>k. k \<notin> {''id'', ''description'', ''edit_url'', ''custom_css'', ''custom_js''} \<longrightarrow>
           get_prop (opts (updateExperiment this options w)) k = get_prop options k \<and>
           has_prop (opts (updateExperiment this options w)) k = has_prop options k)) \<and>
   (truthy (get_prop options ''experiment_id'') \<and>
    js_String (get_prop options ''experiment_id'') \<noteq> [] \<longrightarrow>
      is_obj options \<and> has_prop options ''experiment_id'' \<and>
      sends (createVariation this options w)
        (req POST (baseUrl this @ ''experiments/'' @ js_String (get_prop options ''experiment_id'')
                     @ ''/variations/'') ''post'' this
           (Some (opts (createVariation this options w)))) w \<and>
      is_obj (opts (createVariation this options w)) \<and>
      \<not> has_prop (opts (createVariation this options w)) ''experiment_id'' \<and>
      has_prop (opts (createVariation this options w)) ''description'' \<and>
      get_prop (opts (createVariation this options w)) ''description'' =
        js_or (get_prop options ''description'') (JStr []) \<and>
      (\<forall>k. k \<notin> {''experiment_id'', ''description''} \<longrightarrow>
           get_prop (opts (createVariation this options w)) k = get_prop options k \<and>
           has_prop (opts (createVariation this options w)) k = has_prop options k))"
  apply (rule conjI)
   apply (intro impI, elim conjE, rule createExperiment_mutates; assumption)
  apply (rule conjI)
   apply (intro impI, elim conjE, rule updateExperiment_mutates; assumption)
  apply (intro impI, elim conjE, rule createVariation_mutates; assumption)
  done



theorem options_object_mutated_witness:
  "has_prop (JObj [(''edit_url'', JStr ''http://example.com/''), (''project_id'', JStr ''1''),
                   (''status'', JStr ''Paused'')]) ''project_id'' \<and>
   sends (createExperiment example_client
            (JObj [(''edit_url'', JStr ''http://example.com/''), (''project_id'', JStr ''1''),
                   (''status'', JStr ''Paused'')]) example_world)
     (req POST ''https://www.optimizelyapis.com/experiment/v1/projects/1/experiments/'' ''post''
        example_client
        (Some (JObj [(''edit_url'', JStr ''http://example.com/''), (''status'', JStr ''Paused''),
                     (''description'', JStr []), (''custom_css'', JStr []),
                     (''custom_js'', JStr [])]))) example_world \<and>
   opts (createExperiment example_client
            (JObj [(''edit_url'', JStr ''http://example.com/''), (''project_id'', JStr ''1''),
                   (''status'', JStr ''Paused'')]) example_world) =
     JObj [(''edit_url'', JStr ''http://example.com/''), (''status'', JStr ''Paused''),
           (''description'', JStr []), (''custom_css'', JStr []), (''custom_js'', JStr [])] \<and>
   has_prop (JObj [(''id'', JStr ''42''), (''description'', JStr ''B''),
                   (''status'', JStr ''Paused'')]) ''id'' \<and>
   sends (updateExperiment example_client
            (JObj [(''id'', JStr ''42''), (''description'', JStr ''B''),
                   (''status'', JStr ''Paused'')]) example_world)
     (req PUT ''https://www.optimizelyapis.com/experiment/v1/experiments/42'' ''put''
        example_client
        (Some (JObj [(''description'', JStr ''B''), (''status'', JStr ''Paused''),
                     (''edit_url'', JStr []), (''custom_css'', JStr []),
                     (''custom_js'', JStr [])]))) example_world \<and>
   opts (updateExperiment example_client
            (JObj [(''id'', JStr ''42''), (''description'', JStr ''B''),
                   (''status'', JStr ''Paused'')]) example_world) =
     JObj [(''description'', JStr ''B''), (''status'', JStr ''Paused''),
           (''edit_url'', JStr []), (''custom_css'', JStr []), (''custom_js'', JStr [])] \<and>
   has_prop (JObj [(''experiment_id'', JStr ''42''), (''weight'', JNum 5000)]) ''experiment_id'' \<and>
   sends (createVariation example_client
            (JObj [(''experiment_id'', JStr ''42''), (''weight'', JNum 5000)]) example_world)
     (req POST ''https://www.optimizelyapis.com/experiment/v1/experiments/42/variations/'' ''post''
        example_client
        (Some (JObj [(''weight'', JNum 5000), (''description'', JStr [])]))) example_world \<and>
   opts (createVariation example_client
            (JObj [(''experiment_id'', JStr ''42''), (''weight'', JNum 5000)]) example_world) =
     JObj [(''weight'', JNum 5000), (''description'', JStr [])]"
proof -
  let ?a = "JObj [(''edit_url'', JStr ''http://example.com/''), (''project_id'', JStr ''1''),
                  (''status'', JStr ''Paused'')]"
  let ?b = "JObj [(''id'', JStr ''42''), (''description'', JStr ''B''),
                  (''status'', JStr ''Paused'')]"
  let ?c = "JObj [(''experiment_id'', JStr ''42''), (''weight'', JNum 5000)]"
  have url: "baseUrl example_client = ''https://www.optimizelyapis.com/experiment/v1/''"
    by (simp add: example_client_def)
  have oa: "opts (createExperiment example_client ?a example_world) =
     JObj [(''edit_url'', JStr ''http://example.com/''), (''status'', JStr ''Paused''),
           (''description'', JStr []), (''custom_css'', JStr []), (''custom_js'', JStr [])]"
    by (simp add: createExperiment_def Let_def assign_or_def js_or_def)
  have ob: "opts (updateExperiment example_client ?b example_world) =
     JObj [(''description'', JStr ''B''), (''status'', JStr ''Paused''),
           (''edit_url'', JStr []), (''custom_css'', JStr []), (''custom_js'', JStr [])]"
    by (simp add: updateExperiment_def Let_def assign_or_def assign_String_or_def js_or_def)
  have oc: "opts (createVariation example_client ?c example_world) =
     JObj [(''weight'', JNum 5000), (''description'', JStr [])]"
    by (simp add: createVariation_def Let_def assign_or_def assign_String_or_def js_or_def)
  have ta: "truthy (get_prop ?a ''edit_url'') \<and> truthy (get_prop ?a ''project_id'')"
    by simp
  have tb: "truthy (get_prop ?b ''id'') \<and> js_String (get_prop ?b ''id'') \<noteq> []"
    by simp
  have tc: "truthy (get_prop ?c ''experiment_id'') \<and>
            js_String (get_prop ?c ''experiment_id'') \<noteq> []"
    by simp
  note all = options_object_mutated [where this = example_client and w = example_world]
  from all [where options = ?a, THEN conjunct1, rule_format, OF ta]
  have a: "has_prop ?a ''project_id''"
    "sends (createExperiment example_client ?a example_world)
       (req POST (baseUrl example_client @ ''projects/'' @ js_String (get_prop ?a ''project_id'')
                    @ ''/experiments/'') ''post'' example_client
          (Some (opts (createExperiment example_client ?a example_world)))) example_world"
    by blast+
  from all [where options = ?b, THEN conjunct2, THEN conjunct1, rule_format, OF tb]
  have b: "has_prop ?b ''id''"
    "sends (updateExperiment example_client ?b example_world)
       (req PUT (baseUrl example_client @ ''experiments/'' @ js_String (get_prop ?b ''id''))
          ''put'' example_client
          (Some (opts (updateExperiment example_client ?b example_world)))) example_world"
    by blast+
  from all [where options = ?c, THEN conjunct2, THEN conjunct2, rule_format, OF tc]
  have c: "has_prop ?c ''experiment_id''"
    "sends (createVariation example_client ?c example_world)
       (req POST (baseUrl example_client @ ''experiments/''
                    @ js_String (get_prop ?c ''experiment_id'') @ ''/variations/'')
          ''post'' example_client
          (Some (opts (createVariation example_client ?c example_world)))) example_world"
    by blast+
  from a(2) have a2: "sends (createExperiment example_client ?a example_world)
     (req POST ''https://www.optimizelyapis.com/experiment/v1/projects/1/experiments/'' ''post''
        example_client
        (Some (JObj [(''edit_url'', JStr ''http://example.com/''), (''status'', JStr ''Paused''),
                     (''description'', JStr []), (''custom_css'', JStr []),
                     (''custom_js'', JStr [])]))) example_world"
    by (simp add: oa url)
  from b(2) have b2: "sends (updateExperiment example_client ?b example_world)
     (req PUT ''https://www.optimizelyapis.com/experiment/v1/experiments/42'' ''put''
        example_client
        (Some (JObj [(''description'', JStr ''B''), (''status'', JStr ''Paused''),
                     (''edit_url'', JStr []), (''custom_css'', JStr []),
                     (''custom_js'', JStr [])]))) example_world"
    by (simp add: ob url)
  from c(2) have c2: "sends (createVariation example_client ?c example_world)
     (req POST ''https://www.optimizelyapis.com/experiment/v1/experiments/42/variations/'' ''post''
        example_client
        (Some (JObj [(''weight'', JNum 5000), (''description'', JStr [])]))) example_world"
    by (simp add: oc url)
  from a(1) a2 oa b(1) b2 ob c(1) c2 oc show ?thesis
    by (intro conjI)
qed

section \<open>Results and statistics with a dimension filter\<close>

lemma wrap_obj [simp]: "is_obj v \<Longrightarrow> wrap_string_or_number k v = v"
  by (cases v) (simp_all add: wrap_string_or_number_def)

lemma getStats_outcome:
  "(truthy (get_prop options ''dimension'') \<and>
    js_String (js_or (get_prop options ''id'') (JStr [])) = [] \<longrightarrow>
      throws (getStats this options w) (Error ''required: options.id'') w) \<and>
   (truthy (get_prop options ''dimension'') \<and>
    js_String (js_or (get_prop options ''id'') (JStr [])) \<noteq> [] \<and>
    \<not> truthy (get_prop (get_prop options ''dimension'') ''id'') \<longrightarrow>
      throws (getStats this options w) (Error ''required: options.dimension.id'') w) \<and>
   (truthy (get_prop options ''dimension'') \<and>
    js_String (js_or (get_prop options ''id'') (JStr [])) \<noteq> [] \<and>
    truthy (get_prop (get_prop options ''dimension'') ''id'') \<and>
    \<not> truthy (get_prop (get_prop options ''dimension'') ''value'') \<longrightarrow>
      throws (getStats this options w) (Error ''required: options.dimension.value'') w) \<and>
   (truthy (get_prop options ''dimension'') \<and>
    js_String (js_or (get_prop options ''id'') (JStr [])) \<noteq> [] \<and>
    truthy (get_prop (get_prop options ''dimension'') ''id'') \<and>
    truthy (get_prop (get_prop options ''dimension'') ''value'') \<longrightarrow>
      sends (getStats this options w)
        (req GET (baseUrl this @ ''experiments/''
                    @ js_String (js_or (get_prop options ''id'') (JStr [])) @ ''/stats''
                    @ ''?dimension_id='' @ encodeURIComponent (get_prop (get_prop options ''dimension'') ''id'')
                    @ ''&dimension_value=''
                    @ encodeURIComponent (get_prop (get_prop options ''dimension'') ''value''))
           ''GET'' this None) w)"
proof (cases "truthy (get_prop options ''dimension'')")
  case True
  then have obj: "is_obj options" by (rule truthy_get_prop_is_obj)
  then have o: "js_or options (JObj []) = options" by (simp add: js_or_left is_obj_truthy)
  show ?thesis
    unfolding getStats_def Let_def dimension_query_def
    by (simp add: obj o True get_prop_assign_String_or throws_throw sends_restAsync_iff req_def)
next
  case False
  then show ?thesis by simp
qed

lemma getResults_outcome:
  "(truthy (get_prop options ''dimension'') \<and>
    js_String (js_or (get_prop options ''id'') (JStr [])) = [] \<longrightarrow>
      throws (getResults this options w) (Error ''required: options.id'') w) \<and>
   (truthy (get_prop options ''dimension'') \<and>
    js_String (js_or (get_prop options ''id'') (JStr [])) \<noteq> [] \<and>
    \<not> truthy (get_prop (get_prop options ''dimension'') ''id'') \<longrightarrow>
      throws (getResults this options w) (Error ''required: options.dimension.id'') w) \<and>
   (truthy (get_prop options ''dimension'') \<and>
    js_String (js_or (get_prop options ''id'') (JStr [])) \<noteq> [] \<and>
    truthy (get_prop (get_prop options ''dimension'') ''id'') \<and>
    \<not> truthy (get_prop (get_prop options ''dimension'') ''value'') \<longrightarrow>
      throws (getResults this options w) (Error ''required: options.dimension.value'') w) \<and>
   (truthy (get_prop options ''dimension'') \<and>
    js_String (js_or (get_prop options ''id'') (JStr [])) \<noteq> [] \<and>
    truthy (get_prop (get_prop options ''dimension'') ''id'') \<and>
    truthy (get_prop (get_prop options ''dimension'') ''value'') \<longrightarrow>
      sends (getResults this options w)
        (req GET (baseUrl this @ ''experiments/''
                    @ js_String (js_or (get_prop options ''id'') (JStr [])) @ ''/results''
                    @ ''?dimension_id='' @ encodeURIComponent (get_prop (get_prop options ''dimension'') ''id'')
                    @ ''&dimension_value=''
                    @ encodeURIComponent (get_prop (get_prop options ''dimension'') ''value''))
           ''GET'' this None) w)"
proof (cases "truthy (get_prop options ''dimension'')")
  case True
  then have obj: "is_obj options" by (rule truthy_get_prop_is_obj)
  then have o: "js_or options (JObj []) = options" by (simp add: js_or_left is_obj_truthy)
  show ?thesis
    unfolding getResults_def Let_def dimension_query_def
    by (simp add: obj o True get_prop_assign_String_or throws_throw sends_restAsync_iff req_def)
next
  case False
  then show ?thesis by simp
qed


lemma encode_plain: "encodeURIComponent (JStr ''d1'') = ''d1''" "encodeURIComponent (JStr ''v1'') = ''v1''"
  by (simp_all add: encodeURIComponent_def encode_char_def unreserved_def)

lemma encode_escaped: "encodeURIComponent (JStr ''a b/c'') = ''a%20b%2Fc''"
  by (simp add: encodeURIComponent_def encode_char_def unreserved_def hex2_def)

text \<open>
  Claim C5. For \<^verbatim>\<open>getStats\<close> and \<^verbatim>\<open>getResults\<close> called with a truthy
  \<^verbatim>\<open>options.dimension\<close>: a missing experiment id throws \<^verbatim>\<open>required: options.id\<close>, a
  missing \<^verbatim>\<open>dimension.id\<close> throws \<^verbatim>\<open>required: options.dimension.id\<close>, a missing
  \<^verbatim>\<open>dimension.value\<close> throws \<^verbatim>\<open>required: options.dimension.value\<close>, each before any
  request; otherwise one GET goes to
  \<^verbatim>\<open>experiments/<id>/stats?dimension_id=<id'>&dimension_value=<value'>\<close> (or
  \<^verbatim>\<open>/results\<close>), where \<^verbatim>\<open><id'>\<close> and \<^verbatim>\<open><value'>\<close> are the percent-encodings of the two
  values.
\<close>

theorem dimension_filter:
  "((truthy (get_prop options ''dimension'') \<and>
    js_String (js_or (get_prop options ''id'') (JStr [])) = [] \<longrightarrow>
      throws (getStats this options w) (Error ''required: options.id'') w) \<and>
   (truthy (get_prop options ''dimension'') \<and>
    js_String (js_or (get_prop options ''id'') (JStr [])) \<noteq> [] \<and>
    \<not> truthy (get_prop (get_prop options ''dimension'') ''id'') \<longrightarrow>
      throws (getStats this options w) (Error ''required: options.dimension.id'') w) \<and>
   (truthy (get_prop options ''dimension'') \<and>
    js_String (js_or (get_prop options ''id'') (JStr [])) \<noteq> [] \<and>
    truthy (get_prop (get_prop options ''dimension'') ''id'') \<and>
    \<not> truthy (get_prop (get_prop options ''dimension'') ''value'') \<longrightarrow>
      throws (getStats this options w) (Error ''required: options.dimension.value'') w) \<and>
   (truthy (get_prop options ''dimension'') \<and>
    js_String (js_or (get_prop options ''id'') (JStr [])) \<noteq> [] \<and>
    truthy (get_prop (get_prop options ''dimension'') ''id'') \<and>
    truthy (get_prop (get_prop options ''dimension'') ''value'') \<longrightarrow>
      sends (getStats this options w)
        (req GET (baseUrl this @ ''experiments/''
                    @ js_String (js_or (get_prop options ''id'') (JStr [])) @ ''/stats''
                    @ ''?dimension_id='' @ encodeURIComponent (get_prop (get_prop options ''dimension'') ''id'')
                    @ ''&dimension_value=''
                    @ encodeURIComponent (get_prop (get_prop options ''dimension'') ''value''))
           ''GET'' this None) w)) \<and>
   ((truthy (get_prop options ''dimension'') \<and>
    js_String (js_or (get_prop options ''id'') (JStr [])) = [] \<longrightarrow>
      throws (getResults this options w) (Error ''required: options.id'') w) \<and>
   (truthy (get_prop options ''dimension'') \<and>
    js_String (js_or (get_prop options ''id'') (JStr [])) \<noteq> [] \<and>
    \<not> truthy (get_prop (get_prop options ''dimension'') ''id'') \<longrightarrow>
      throws (getResults this options w) (Error ''required: options.dimension.id'') w) \<and>
   (truthy (get_prop options ''dimension'') \<and>
    js_String (js_or (get_prop options ''id'') (JStr [])) \<noteq> [] \<and>
    truthy (get_prop (get_prop options ''dimension'') ''id'') \<and>
    \<not> truthy (get_prop (get_prop options ''dimension'') ''value'') \<longrightarrow>
      throws (getResults this options w) (Error ''required: options.dimension.value'') w) \<and>
   (truthy (get_prop options ''dimension'') \<and>
    js_String (js_or (get_prop options ''id'') (JStr [])) \<noteq> [] \<and>
    truthy (get_prop (get_prop options ''dimension'') ''id'') \<and>
    truthy (get_prop (get_prop options ''dimension'') ''value'') \<longrightarrow>
      sends (getResults this options w)
        (req GET (baseUrl this @ ''experiments/''
                    @ js_String (js_or (get_prop options ''id'') (JStr [])) @ ''/results''
                    @ ''?dimension_id='' @ encodeURIComponent (get_prop (get_prop options ''dimension'') ''id'')
                    @ ''&dimension_value=''
                    @ encodeURIComponent (get_prop (get_prop options ''dimension'') ''value''))
           ''GET'' this None) w))"
  by (rule conjI [OF getStats_outcome getResults_outcome])

theorem dimension_filter_witness:
  "sends (getStats example_client
            (JObj [(''id'', JStr ''7''),
                   (''dimension'', JObj [(''id'', JStr ''d1''), (''value'', JStr ''v1'')])])
            example_world)
     (req GET ''https://www.optimizelyapis.com/experiment/v1/experiments/7/stats?dimension_id=d1&dimension_value=v1''
        ''GET'' example_client None) example_world \<and>
   sends (getResults example_client
            (JObj [(''id'', JStr ''7''),
                   (''dimension'', JObj [(''id'', JStr ''d1''), (''value'', JStr ''a b/c'')])])
            example_world)
     (req GET ''https://www.optimizelyapis.com/experiment/v1/experiments/7/results?dimension_id=d1&dimension_value=a%20b%2Fc''
        ''GET'' example_client None) example_world \<and>
   throws (getStats example_client
            (JObj [(''id'', JStr ''7''), (''dimension'', JObj [(''id'', JStr ''d1'')])])
            example_world)
     (Error ''required: options.dimension.value'') example_world \<and>
   throws (getResults example_client
            (JObj [(''id'', JStr ''7''), (''dimension'', JObj [(''value'', JStr ''v1'')])])
            example_world)
     (Error ''required: options.dimension.id'') example_world"
  using
    dimension_filter [of "JObj [(''id'', JStr ''7''),
        (''dimension'', JObj [(''id'', JStr ''d1''), (''value'', JStr ''v1'')])]"
      example_client example_world]
    dimension_filter [of "JObj [(''id'', JStr ''7''),
        (''dimension'', JObj [(''id'', JStr ''d1''), (''value'', JStr ''a b/c'')])]"
      example_client example_world]
    dimension_filter [of "JObj [(''id'', JStr ''7''), (''dimension'', JObj [(''id'', JStr ''d1'')])]"
      example_client example_world]
    dimension_filter [of "JObj [(''id'', JStr ''7''), (''dimension'', JObj [(''value'', JStr ''v1'')])]"
      example_client example_world]
  by (simp add: example_client_def js_or_def encode_plain encode_escaped)

section \<open>The request adapter\<close>

lemma on_event_Pending: "on_event Pending e = settled_by e"
  by (cases e) (simp_all add: resolve_def reject_def)

lemma on_event_settled: "p \<noteq> Pending \<Longrightarrow> on_event p e = p"
  by (cases e; cases p) (simp_all add: resolve_def reject_def)

lemma on_event_unlistened: "\<not> listened e \<Longrightarrow> on_event p e = p"
  by (cases e) simp_all

lemma settled_by_listened: "listened e \<Longrightarrow> settled_by e \<noteq> Pending"
  by (cases e) simp_all

lemma foldl_on_event_settled: "p \<noteq> Pending \<Longrightarrow> foldl on_event p es = p"
  by (induction es) (simp_all add: on_event_settled)

lemma foldl_on_event_unlistened: "list_all (\<lambda>x. \<not> listened x) es \<Longrightarrow> foldl on_event p es = p"
  by (induction es) (simp_all add: on_event_unlistened)

lemma foldl_on_event_first:
  assumes "list_all (\<lambda>x. \<not> listened x) quiet" and "listened e"
  shows "foldl on_event Pending (quiet @ e # later) = settled_by e"
  using assms
  by (simp add: foldl_on_event_unlistened on_event_Pending foldl_on_event_settled
      settled_by_listened)

lemma settlements_settled: "p \<noteq> Pending \<Longrightarrow> settlements p es = 0"
  by (induction es) (simp_all add: on_event_settled)

lemma settlements_unlistened: "list_all (\<lambda>x. \<not> listened x) es \<Longrightarrow> settlements p es = 0"
  by (induction es) (simp_all add: on_event_unlistened)

lemma settlements_append:
  "settlements p (xs @ ys) = settlements p xs + settlements (foldl on_event p xs) ys"
  by (induction xs arbitrary: p) simp_all

lemma settlements_first:
  assumes "list_all (\<lambda>x. \<not> listened x) quiet" and "listened e"
  shows "settlements Pending (quiet @ e # later) = 1"
  using assms
  by (simp add: settlements_append settlements_unlistened foldl_on_event_unlistened
      on_event_Pending settled_by_listened settlements_settled)

text \<open>
  Claim C8. Let the emitter of a call fire, after any number of events without a listener,
  one of the five events the adapter listens to, and then anything. The promise ends
  in the state that this first event gives: fulfilled with the data of \<^verbatim>\<open>success\<close>,
  rejected with the data of \<^verbatim>\<open>fail\<close>, with the error of \<^verbatim>\<open>error\<close>, with a
  \<^verbatim>\<open>CancellationError\<close> on \<^verbatim>\<open>abort\<close>, with a \<^verbatim>\<open>TimeoutError\<close> on \<^verbatim>\<open>timeout\<close>. The
  promise changes state exactly once over the whole sequence, and the call adds exactly
  one request to the log.
\<close>

theorem adapter_settles_once:
  assumes "originalMethod args = Inr (quiet @ e # later)"
    and "list_all (\<lambda>x. \<not> listened x) quiet"
    and "listened e"
  shows "(\<forall>d. e = Success d \<longrightarrow> EventEmitterPromisifier originalMethod args = Fulfilled d) \<and>
         (\<forall>d. e = Fail d \<longrightarrow> EventEmitterPromisifier originalMethod args = Rejected (Payload d)) \<and>
         (\<forall>err. e = ErrorEvent err \<longrightarrow>
            EventEmitterPromisifier originalMethod args = Rejected (Raised err)) \<and>
         (e = Abort \<longrightarrow>
            EventEmitterPromisifier originalMethod args = Rejected (Raised CancellationError)) \<and>
         (e = Timeout \<longrightarrow>
            EventEmitterPromisifier originalMethod args = Rejected (Raised TimeoutError)) \<and>
         EventEmitterPromisifier originalMethod args \<noteq> Pending \<and>
         settlements Pending (quiet @ e # later) = 1 \<and>
         calls (net (restAsync v u m hs body options w)) =
           calls w @ [\<lparr>verb = v, url = u, http_method = m, headers = hs, data = body\<rparr>]"
proof -
  have "EventEmitterPromisifier originalMethod args = settled_by e"
    using assms(1) foldl_on_event_first [OF assms(2,3), of later]
    by (simp add: EventEmitterPromisifier_def del: foldl_append)
  moreover have "settled_by e \<noteq> Pending"
    using assms(3) by (rule settled_by_listened)
  moreover have "settlements Pending (quiet @ e # later) = 1"
    using assms(2,3) by (rule settlements_first)
  moreover have "calls (net (restAsync v u m hs body options w)) =
      calls w @ [\<lparr>verb = v, url = u, http_method = m, headers = hs, data = body\<rparr>]"
    by (simp add: restAsync_def Let_def)
  ultimately show ?thesis by simp
qed

theorem adapter_settles_once_witness:
  "EventEmitterPromisifier
     (\<lambda>q :: request. Inr [Other ''404'', Fail (JStr ''not found''), Other ''complete'', Abort])
     (req GET ''https://www.optimizelyapis.com/experiment/v1/projects/5'' ''get'' example_client None)
     = Rejected (Payload (JStr ''not found'')) \<and>
   settlements Pending [Other ''404'', Fail (JStr ''not found''), Other ''complete'', Abort] = 1 \<and>
   EventEmitterPromisifier
     (\<lambda>q :: request. Inr [Other ''200'', Success (JStr ''{}''), Other ''complete''])
     (req GET ''https://www.optimizelyapis.com/experiment/v1/projects/5'' ''get'' example_client None)
     = Fulfilled (JStr ''{}'')"
  using
    adapter_settles_once
      [of "\<lambda>q :: request. Inr [Other ''404'', Fail (JStr ''not found''), Other ''complete'', Abort]"
          "req GET ''https://www.optimizelyapis.com/experiment/v1/projects/5'' ''get'' example_client None"
          "[Other ''404'']" "Fail (JStr ''not found'')" "[Other ''complete'', Abort]"]
    adapter_settles_once
      [of "\<lambda>q :: request. Inr [Other ''200'', Success (JStr ''{}''), Other ''complete'']"
          "req GET ''https://www.optimizelyapis.com/experiment/v1/projects/5'' ''get'' example_client None"
          "[Other ''200'']" "Success (JStr ''{}'')" "[Other ''complete'']"]
  by simp


section \<open>Finding an experiment by its description\<close>

lemma strict_eq_JStr: "strict_eq v (JStr d) \<longleftrightarrow> v = JStr d"
  by (cases v) auto

lemma find_description_find:
  "list_all (\<lambda>x. \<not> nullish x) xs \<Longrightarrow>
   find_description xs (JStr d) =
     Inr (case find (\<lambda>x. get_prop x ''description'' = JStr d) xs of
            Some x \<Rightarrow> x | None \<Rightarrow> JNull)"
  by (induction xs) (simp_all add: strict_eq_JStr)

lemma getExperiments_bare_string:
  "pid \<noteq> [] \<Longrightarrow>
   getExperiments this (JStr pid) w =
     restAsync GET (baseUrl this @ ''projects/'' @ pid @ ''/experiments/'') ''get''
       (baseHeaders this) None (JObj [(''project_id'', JStr pid)]) w"
  by (simp add: getExperiments_def wrap_string_or_number_def Let_def assign_String_or_def js_or_def)

text \<open>
  For a project given as a non-empty string: the call makes the one request that
  \<^verbatim>\<open>getExperiments(projectId)\<close> makes and no other. When that request succeeds with a
  payload that, parsed if it is a string, is a collection without \<^verbatim>\<open>null\<close> or
  \<^verbatim>\<open>undefined\<close> entries, the promise is fulfilled with the first entry whose
  \<^verbatim>\<open>description\<close> is the requested string, or with \<^verbatim>\<open>null\<close> when there is none.
\<close>

lemma getExperimentByDescription_string_project:
  assumes "pid \<noteq> []" and "d \<noteq> []"
    and "remote w (calls w)
           (req GET (baseUrl this @ ''projects/'' @ pid @ ''/experiments/'') ''get'' this None) =
         Inr (quiet @ Success payload # later)"
    and "list_all (\<lambda>x. \<not> listened x) quiet"
    and "parse_if_string (JSON_parse w) payload = Inr listing"
    and "list_all (\<lambda>x. \<not> nullish x) (for_in_values listing)"
  shows "ret (getExperimentByDescription this (JStr pid) (JStr d) w) =
           Inr (Fulfilled (case find (\<lambda>x. get_prop x ''description'' = JStr d) (for_in_values listing) of
                             Some x \<Rightarrow> x | None \<Rightarrow> JNull)) \<and>
         net (getExperimentByDescription this (JStr pid) (JStr d) w) =
           net (getExperiments this (JStr pid) w) \<and>
         sends (getExperiments this (JStr pid) w)
           (req GET (baseUrl this @ ''projects/'' @ pid @ ''/experiments/'') ''get'' this None) w"
proof -
  let ?q = "req GET (baseUrl this @ ''projects/'' @ pid @ ''/experiments/'') ''get'' this None"
  let ?options = "JObj [(''project_id'', JStr pid), (''description'', JStr d)]"
  have listed: "sends (getExperiments this (JStr pid) w) ?q w"
    using assms(1) by (simp add: getExperiments_bare_string sends_restAsync_iff req_def)
  have promise: "EventEmitterPromisifier (remote w (calls w)) ?q = Fulfilled payload"
    using assms(3) foldl_on_event_first [OF assms(4), of "Success payload" later]
    by (simp add: EventEmitterPromisifier_def del: foldl_append)
  have ret_listed: "ret (getExperiments this (JStr pid) w) = Inr (Fulfilled payload)"
    using listed promise by (simp add: sends_def)
  have scan: "find_description (for_in_values listing) (JStr d) =
      Inr (case find (\<lambda>x. get_prop x ''description'' = JStr d) (for_in_values listing) of
             Some x \<Rightarrow> x | None \<Rightarrow> JNull)"
    using assms(6) by (rule find_description_find)
  have "ret (getExperimentByDescription this (JStr pid) (JStr d) w) =
           Inr (Fulfilled (case find (\<lambda>x. get_prop x ''description'' = JStr d) (for_in_values listing) of
                             Some x \<Rightarrow> x | None \<Rightarrow> JNull)) \<and>
         net (getExperimentByDescription this (JStr pid) (JStr d) w) =
           net (getExperiments this (JStr pid) w)"
    using assms(1,2)
    by (simp add: getExperimentByDescription_def wrap_string_def Let_def assign_String_or_def
        assign_or_def js_or_def ret_listed then_promise_def assms(5) scan)
  with listed show ?thesis
    by (intro conjI) simp_all
qed

lemma getExperimentByDescription_example:
  "ret (getExperimentByDescription example_client (JStr ''1'') (JStr ''B'') listing_world) =
     Inr (Fulfilled (JObj [(''id'', JNum 2), (''description'', JStr ''B'')])) \<and>
   ret (getExperimentByDescription example_client (JStr ''1'') (JStr ''Z'') listing_world) =
     Inr (Fulfilled JNull) \<and>
   ret (getExperimentByDescription example_client (JStr ''1'') (JStr ''b'') listing_world) =
     Inr (Fulfilled JNull) \<and>
   calls (net (getExperimentByDescription example_client (JStr ''1'') (JStr ''B'') listing_world)) =
     [req GET ''https://www.optimizelyapis.com/experiment/v1/projects/1/experiments/'' ''get''
        example_client None]"
proof -
  let ?data = "JArr [JObj [(''id'', JNum 1), (''description'', JStr ''A'')],
                     JObj [(''id'', JNum 2), (''description'', JStr ''B'')],
                     JObj [(''id'', JNum 3), (''description'', JStr ''B'')],
                     JObj [(''id'', JNum 4), (''description'', JStr ''C'')]]"
  have events: "remote listing_world (calls listing_world)
          (req GET (baseUrl example_client @ ''projects/'' @ ''1'' @ ''/experiments/'') ''get''
             example_client None) =
        Inr ([Other ''200''] @ Success (JStr ''[A, B, B2, C]'') # [Other ''complete''])"
    by (simp add: listing_world_def)
  have quiet: "list_all (\<lambda>x. \<not> listened x) [Other ''200'']"
    by simp
  have parsed: "parse_if_string (JSON_parse listing_world) (JStr ''[A, B, B2, C]'') = Inr ?data"
    by (simp add: listing_world_def)
  have entries: "list_all (\<lambda>x. \<not> nullish x) (for_in_values ?data)"
    by simp
  note found = getExperimentByDescription_string_project [OF _ _ events quiet parsed entries]
  have b: "ret (getExperimentByDescription example_client (JStr ''1'') (JStr ''B'') listing_world) =
     Inr (Fulfilled (JObj [(''id'', JNum 2), (''description'', JStr ''B'')]))"
    using found [of "''B''"] by simp
  have z: "ret (getExperimentByDescription example_client (JStr ''1'') (JStr ''Z'') listing_world) =
     Inr (Fulfilled JNull)"
    using found [of "''Z''"] by simp
  have lower: "ret (getExperimentByDescription example_client (JStr ''1'') (JStr ''b'') listing_world) =
     Inr (Fulfilled JNull)"
    using found [of "''b''"] by simp
  have "calls (net (getExperimentByDescription example_client (JStr ''1'') (JStr ''B'') listing_world)) =
     [req GET ''https://www.optimizelyapis.com/experiment/v1/projects/1/experiments/'' ''get''
        example_client None]"
    using found [of "''B''"] by (simp add: sends_def listing_world_def example_client_def)
  with b z lower show ?thesis by simp
qed

text \<open>
  Claim C4 says that \<^verbatim>\<open>getExperimentByDescription(projectId, description)\<close> lists the
  experiments of the project and returns the first entry with that description. The
  code does not, where the project identifier is a bare number: the method wraps a bare
  string only, so \<^verbatim>\<open>getExperimentByDescription(5, "B")\<close> throws
  \<^verbatim>\<open>Error("Required: options.project_id")\<close> and makes no request, whereas
  \<^verbatim>\<open>getExperiments(5)\<close>, to which it delegates, requests \<^verbatim>\<open>projects/5/experiments/\<close>.
\<close>

theorem getExperimentByDescription_numeric_project:
  "throws (getExperimentByDescription this (JNum 5) (JStr ''B'') w)
     (Error ''Required: options.project_id'') w \<and>
   sends (getExperiments this (JNum 5) w)
     (req GET (baseUrl this @ ''projects/5/experiments/'') ''get'' this None) w"
  by (simp add: getExperimentByDescription_def getExperiments_def wrap_string_def
      wrap_string_or_number_def Let_def assign_String_or_def assign_or_def js_or_def throws_throw
      sends_restAsync_iff req_def string_of_int_def string_of_nat.simps)


section \<open>Reading, deleting and listing by identifier\<close>

text \<open>
  Seven operations normalise their argument before they test the identifier, and the
  listing of experiments does the same for \<^verbatim>\<open>project_id\<close>: whatever the argument, a
  missing or empty identifier throws the validation error and no request is made. Four
  operations test \<^verbatim>\<open>options.id\<close> directly, which works for every argument except
  \<^verbatim>\<open>undefined\<close> and \<^verbatim>\<open>null\<close>.
\<close>

lemma guarded_reads_reject_missing_id:
  assumes "\<not> truthy (get_prop (wrap_string_or_number ''id'' options) ''id'')"
  shows "throws (getProject this options w) (Error ''required: options.id'') w"
    and "throws (getExperiment this options w) (Error ''required: options.id'') w"
    and "throws (deleteExperiment this options w) (Error ''required: options.id'') w"
    and "throws (getResults this options w) (Error ''required: options.id'') w"
    and "throws (getStats this options w) (Error ''required: options.id'') w"
    and "throws (getAudiences this options w) (Error ''required: options.id'') w"
    and "throws (getDimensions this options w) (Error ''required: options.id'') w"
    and "throws (getGoals this options w) (Error ''required: options.id'') w"
  using assms
  by (simp_all add: getProject_def getExperiment_def deleteExperiment_def getResults_def
      getStats_def getAudiences_def getDimensions_def getGoals_def Let_def
      get_prop_assign_String_or get_prop_assign_or get_prop_or_empty throws_throw js_or_right)

lemma getExperiments_rejects_missing_id:
  assumes "\<not> truthy (get_prop (wrap_string_or_number ''project_id'' options) ''project_id'')"
  shows "throws (getExperiments this options w) (Error ''required: options.project_id'') w"
  using assms
  by (simp add: getExperiments_def Let_def get_prop_assign_String_or get_prop_or_empty
      throws_throw js_or_right)

lemma unguarded_reads_reject_missing_id:
  assumes "\<not> nullish options" and "\<not> truthy (get_prop (wrap_string ''id'' options) ''id'')"
  shows "throws (getVariation this options w) (Error ''Required: options.id'') w"
    and "throws (deleteVariation this options w) (Error ''Required: options.id'') w"
    and "throws (getAudience this options w) (Error ''Required: options.id'') w"
    and "throws (getDimension this options w) (Error ''Required: options.id'') w"
  using assms
  by (simp_all add: getVariation_def deleteVariation_def getAudience_def getDimension_def Let_def
      throws_throw wrap_string_def)

lemma string_of_int_5: "string_of_int 5 = ''5''"
  by (simp add: string_of_int_def string_of_nat.simps)

lemma bare_identifier_is_wrapped:
  assumes "typeof v = ''string'' \<or> typeof v = ''number''"
  shows "getProject this v w = getProject this (JObj [(''id'', v)]) w"
    and "getExperiment this v w = getExperiment this (JObj [(''id'', v)]) w"
    and "deleteExperiment this v w = deleteExperiment this (JObj [(''id'', v)]) w"
    and "getResults this v w = getResults this (JObj [(''id'', v)]) w"
    and "getStats this v w = getStats this (JObj [(''id'', v)]) w"
    and "getExperiments this v w = getExperiments this (JObj [(''project_id'', v)]) w"
    and "getAudiences this v w = getAudiences this (JObj [(''id'', v)]) w"
    and "getDimensions this v w = getDimensions this (JObj [(''id'', v)]) w"
    and "getGoals this v w = getGoals this (JObj [(''id'', v)]) w"
  using assms
  by (simp_all add: getProject_def getExperiment_def deleteExperiment_def getResults_def
      getStats_def getExperiments_def getAudiences_def getDimensions_def getGoals_def
      wrap_string_or_number_def)

lemma bare_string_is_wrapped:
  "getVariation this (JStr s) w = getVariation this (JObj [(''id'', JStr s)]) w"
  "deleteVariation this (JStr s) w = deleteVariation this (JObj [(''id'', JStr s)]) w"
  "getAudience this (JStr s) w = getAudience this (JObj [(''id'', JStr s)]) w"
  "getDimension this (JStr s) w = getDimension this (JObj [(''id'', JStr s)]) w"
  by (simp_all add: getVariation_def deleteVariation_def getAudience_def getDimension_def
      wrap_string_def)

text \<open>
  Claim C1 says that every read, delete and list operation called with an absent or
  empty identifier throws the validation error before any network call. The code does
  not, where the argument itself is absent: \<^verbatim>\<open>getVariation()\<close>, \<^verbatim>\<open>deleteVariation()\<close>,
  \<^verbatim>\<open>getAudience()\<close> and \<^verbatim>\<open>getDimension()\<close> throw the TypeError of reading \<^verbatim>\<open>id\<close> of
  \<^verbatim>\<open>undefined\<close> (no request is made), where \<^verbatim>\<open>getProject()\<close> throws
  \<^verbatim>\<open>Error("required: options.id")\<close> and \<^verbatim>\<open>getVariation({})\<close> throws
  \<^verbatim>\<open>Error("Required: options.id")\<close>.
\<close>

theorem reads_without_argument:
  "throws (getVariation this JUndefined w) TypeError w \<and>
   throws (deleteVariation this JUndefined w) TypeError w \<and>
   throws (getAudience this JUndefined w) TypeError w \<and>
   throws (getDimension this JUndefined w) TypeError w \<and>
   throws (getProject this JUndefined w) (Error ''required: options.id'') w \<and>
   throws (getVariation this (JObj []) w) (Error ''Required: options.id'') w"
  by (simp add: getVariation_def deleteVariation_def getAudience_def getDimension_def
      getProject_def Let_def wrap_string_def wrap_string_or_number_def assign_String_or_def
      js_or_def throws_throw)

text \<open>
  Claim C9 says that a bare numeric identifier is accepted by every read and delete
  operation and is equivalent to an object carrying it. The code does not do so for
  \<^verbatim>\<open>getVariation\<close>, \<^verbatim>\<open>deleteVariation\<close>, \<^verbatim>\<open>getAudience\<close> and \<^verbatim>\<open>getDimension\<close>, which
  wrap a bare string only: called with the number 5 they throw
  \<^verbatim>\<open>Error("Required: options.id")\<close>, whereas \<^verbatim>\<open>getVariation({id: 5})\<close> requests
  \<^verbatim>\<open>variations/5\<close> and \<^verbatim>\<open>getProject(5)\<close> requests \<^verbatim>\<open>projects/5\<close>.
\<close>

theorem reads_with_bare_number:
  "throws (getVariation this (JNum 5) w) (Error ''Required: options.id'') w \<and>
   throws (deleteVariation this (JNum 5) w) (Error ''Required: options.id'') w \<and>
   throws (getAudience this (JNum 5) w) (Error ''Required: options.id'') w \<and>
   throws (getDimension this (JNum 5) w) (Error ''Required: options.id'') w \<and>
   sends (getVariation this (JObj [(''id'', JNum 5)]) w)
     (req GET (baseUrl this @ ''variations/5'') ''get'' this None) w \<and>
   sends (getProject this (JNum 5) w)
     (req GET (baseUrl this @ ''projects/5'') ''get'' this None) w"
  by (simp add: getVariation_def deleteVariation_def getAudience_def getDimension_def
      getProject_def Let_def wrap_string_def wrap_string_or_number_def assign_String_or_def
      js_or_def throws_throw sends_restAsync_iff req_def string_of_int_5)

end
